theory Spec2Isabelle
  imports Complex_Main "HOL-Library.Sublist"
begin

section \<open>Modelling conventions\<close>

text \<open>
  The development embeds the accessibility analysis engine of
  \<^verbatim>\<open>src/pdf_accessibility_analyzer/main.py\<close> (class
  \<^verbatim>\<open>EnhancedPDFAccessibilityAnalyzer\<close>).

  \<^item> Python floats are modelled as \<^typ>\<open>real\<close>: rounding error, infinities and NaN
    are outside the model. The power operator on a positive base is \<^const>\<open>powr\<close>.
  \<^item> A Python \<^verbatim>\<open>str\<close> is a \<^typ>\<open>string\<close>, one \<^typ>\<open>char\<close> per character for
    ASCII text. The Cyrillic literals of the source are held as their UTF-8 bytes, with a
    transliteration beside each. The character classes used by \<^verbatim>\<open>isspace\<close>,
    \<^verbatim>\<open>split\<close>, \<^verbatim>\<open>strip\<close>, \<^verbatim>\<open>lower\<close> and the word class of the regular
    expression in \<^verbatim>\<open>count_words\<close> are those of the ASCII range; a byte above 127 is
    taken as part of a letter.
  \<^item> Mutable attributes of the analyzer object are fields of a state record that every
    method takes and returns.
  \<^item> Every \<^verbatim>\<open>try/except\<close> of the source is followed: where the typed model
    leaves no way to raise, the handler has no branch; where it does (a division by
    zero), the handler's value is a branch of the definition.
\<close>

section \<open>Python string primitives\<close>

definition py_isspace :: "char \<Rightarrow> bool" where
  \<comment> \<open>ASCII whitespace as Python's str methods see it: TAB, LF, VT, FF, CR,
      the separators 0x1C..0x1F, and the space\<close>
  "py_isspace c = (of_char c \<in> {9, 10, 11, 12, 13, 28, 29, 30, 31, 32 :: nat})"

definition py_strip :: "string \<Rightarrow> string" where
  "py_strip s = rev (dropWhile py_isspace (rev (dropWhile py_isspace s)))"


function runs :: "(char \<Rightarrow> bool) \<Rightarrow> string \<Rightarrow> string list" where
  \<comment> \<open>the maximal runs of characters satisfying \<open>P\<close>, left to right\<close>
  "runs P s =
     (case dropWhile (\<lambda>c. \<not> P c) s of
        [] \<Rightarrow> []
      | c # cs \<Rightarrow> takeWhile P (c # cs) # runs P (dropWhile P cs))"
  by pat_completeness auto
termination
proof (relation "measure (\<lambda>(P, s). length s)")
  fix P :: "char \<Rightarrow> bool" and s :: string and c cs
  assume "dropWhile (\<lambda>c. \<not> P c) s = c # cs"
  then have "length (c # cs) \<le> length s"
    by (metis length_dropWhile_le)
  moreover have "length (dropWhile P cs) \<le> length cs"
    by (rule length_dropWhile_le)
  ultimately show "((P, dropWhile P cs), (P, s)) \<in> measure (\<lambda>(P, s). length s)"
    by simp
qed simp



definition lower_char :: "char \<Rightarrow> char" where
  "lower_char c =
     (let n = (of_char c :: nat) in if 65 \<le> n \<and> n \<le> 90 then char_of (n + 32) else c)"

definition py_lower :: "string \<Rightarrow> string" where
  "py_lower s = map lower_char s"

fun py_in :: "string \<Rightarrow> string \<Rightarrow> bool" where
  \<comment> \<open>\<^verbatim>\<open>sub in s\<close>: \<open>sub\<close> occurs in \<open>s\<close> as a contiguous substring\<close>
  "py_in sub [] = (sub = [])"
| "py_in sub (c # cs) = (prefix sub (c # cs) \<or> py_in sub cs)"

function py_replace :: "string \<Rightarrow> string \<Rightarrow> string \<Rightarrow> string" where
  \<comment> \<open>\<^verbatim>\<open>s.replace(old, new)\<close> for a non-empty \<open>old\<close>: non-overlapping
      occurrences, left to right. The source only replaces non-empty literals.\<close>
  "py_replace old new s =
     (if old = [] \<or> s = [] then s
      else if prefix old s then new @ py_replace old new (drop (length old) s)
      else hd s # py_replace old new (tl s))"
  by pat_completeness auto
termination
  by (relation "measure (\<lambda>(old, new, s). length s)") (auto simp: Suc_le_eq)

function after_last_plus :: "string \<Rightarrow> string" where
  \<comment> \<open>\<^verbatim>\<open>s.split('+')[-1]\<close>: what follows the last \<open>+\<close>, or all of \<open>s\<close>\<close>
  "after_last_plus s =
     (case dropWhile (\<lambda>c. c \<noteq> CHR ''+'') s of
        [] \<Rightarrow> s
      | c # cs \<Rightarrow> after_last_plus cs)"
  by pat_completeness auto
termination
proof (relation "measure length")
  fix s :: string and c cs
  assume "dropWhile (\<lambda>c. c \<noteq> CHR ''+'') s = c # cs"
  then have "length (c # cs) \<le> length s"
    by (metis length_dropWhile_le)
  then show "(cs, s) \<in> measure length" by simp
qed simp


definition digit_char :: "nat \<Rightarrow> char" where
  "digit_char d = ''0123456789'' ! (d mod 10)"

function py_str_nat :: "nat \<Rightarrow> string" where
  \<comment> \<open>\<^verbatim>\<open>str(n)\<close> of a non-negative integer\<close>
  "py_str_nat n = (if n < 10 then [digit_char n] else py_str_nat (n div 10) @ [digit_char n])"
  by pat_completeness auto
termination
  by (relation "measure id") auto

definition round_half_even :: "real \<Rightarrow> int" where
  \<comment> \<open>rounding to the nearest integer, ties to the even one, as \<^verbatim>\<open>round\<close> and
      the \<^verbatim>\<open>.1f\<close> format do\<close>
  "round_half_even v =
     (let f = \<lfloor>v\<rfloor>; d = v - of_int f
      in if d < 1 / 2 then f else if 1 / 2 < d then f + 1 else if even f then f else f + 1)"

definition py_round2 :: "real \<Rightarrow> real" where
  \<comment> \<open>\<^verbatim>\<open>round(v, 2)\<close>\<close>
  "py_round2 v = of_int (round_half_even (v * 100)) / 100"

definition format_1f :: "real \<Rightarrow> string" where
  \<comment> \<open>the format \<^verbatim>\<open>{v:.1f}\<close>: sign, integer part, point, one decimal\<close>
  "format_1f v =
     (let n = nat (round_half_even (\<bar>v\<bar> * 10))
      in (if v < 0 then ''-'' else []) @ py_str_nat (n div 10) @ ''.'' @ [digit_char n])"

section \<open>Text normalizer\<close>

function collapse_runs :: "'a list \<Rightarrow> 'a list" where
  \<comment> \<open>the outer \<^verbatim>\<open>while\<close> of \<^verbatim>\<open>remove_duplicate_chars\<close>: keep \<open>text[i]\<close>,
      let \<open>j\<close> run over the following equal characters, continue from \<open>j\<close>\<close>
  "collapse_runs [] = []"
| "collapse_runs (c # cs) = c # collapse_runs (dropWhile (\<lambda>d. d = c) cs)"
  by pat_completeness auto
termination
  by (relation "measure length") (auto simp: length_dropWhile_le less_Suc_eq_le)

definition remove_duplicate_chars :: "string \<Rightarrow> string" where
  "remove_duplicate_chars text =
     (if length text < 2 then text
      else
        let cleaned = collapse_runs text in
        if length cleaned mod 2 = 0 then
          (let half = length cleaned div 2;
               first_half = take half cleaned;
               second_half = drop half cleaned
           in if first_half = second_half then first_half else cleaned)
        else cleaned)"

definition is_word_char :: "char \<Rightarrow> bool" where
  \<comment> \<open>the word class of the regular expression: letters, digits, underscore\<close>
  "is_word_char c =
     (let n = (of_char c :: nat)
      in (48 \<le> n \<and> n \<le> 57) \<or> (65 \<le> n \<and> n \<le> 90) \<or> (97 \<le> n \<and> n \<le> 122)
         \<or> n = 95 \<or> 128 \<le> n)"

definition count_words :: "string \<Rightarrow> nat" where
  \<comment> \<open>the findall of word-bounded word runs returns the maximal runs of word characters\<close>
  "count_words text =
     (if py_strip text = [] then 0
      else
        let normalized = remove_duplicate_chars (py_strip text)
        in if normalized = [] then 0 else length (runs is_word_char normalized))"



section \<open>Color model\<close>

type_synonym rgb = "real \<times> real \<times> real"

datatype raw_color =
    Scalar real          \<comment> \<open>an int or float: grayscale\<close>
  | Seq "real list"      \<comment> \<open>a tuple of numbers; a list is normalized alike\<close>
  | Absent               \<comment> \<open>\<^verbatim>\<open>None\<close>\<close>
  | Unrecognized         \<comment> \<open>any other object\<close>

fun normalize_color :: "raw_color \<Rightarrow> rgb" where
  "normalize_color (Scalar c) = (c, c, c)"
| "normalize_color (Seq [c]) = (c, c, c)"
| "normalize_color (Seq [r, g, b]) = (r, g, b)"
| "normalize_color (Seq [c, m, y, k]) = ((1 - c) * (1 - k), (1 - m) * (1 - k), (1 - y) * (1 - k))"
| "normalize_color (Seq _) = (0, 0, 0)"
| "normalize_color Absent = (0, 0, 0)"
| "normalize_color Unrecognized = (0, 0, 0)"

definition srgb_to_linear :: "real \<Rightarrow> real" where
  "srgb_to_linear channel =
     (if channel \<le> 0.03928 then channel / 12.92
      else ((channel + 0.055) / 1.055) powr 2.4)"

fun calculate_luminance :: "rgb \<Rightarrow> real" where
  "calculate_luminance (r, g, b) =
     (let r_linear = srgb_to_linear r;
          g_linear = srgb_to_linear g;
          b_linear = srgb_to_linear b
      in 0.2126 * r_linear + 0.7152 * g_linear + 0.0722 * b_linear)"

definition calculate_contrast_ratio :: "rgb \<Rightarrow> rgb \<Rightarrow> real" where
  \<comment> \<open>a zero divisor raises ZeroDivisionError, which the handler turns into 1.0\<close>
  "calculate_contrast_ratio color1 color2 =
     (let l1 = calculate_luminance color1;
          l2 = calculate_luminance color2;
          lighter = max l1 l2;
          darker = min l1 l2
      in if darker + 0.05 = 0 then 1.0 else (lighter + 0.05) / (darker + 0.05))"

fun rgb_to_hsv :: "rgb \<Rightarrow> rgb" where
  \<comment> \<open>\<^verbatim>\<open>colorsys.rgb_to_hsv\<close> of the standard library; its division by a zero
      maximum raises, and the handler of the method returns (0, 0, 0)\<close>
  "rgb_to_hsv (r, g, b) =
     (let maxc = max r (max g b);
          minc = min r (min g b);
          rangec = maxc - minc;
          v = maxc
      in if minc = maxc then (0, 0, v)
         else if maxc = 0 then (0, 0, 0)
         else
           let s = rangec / maxc;
               rc = (maxc - r) / rangec;
               gc = (maxc - g) / rangec;
               bc = (maxc - b) / rangec;
               h = (if r = maxc then bc - gc
                    else if g = maxc then 2 + rc - bc
                    else 4 + gc - rc)
           in (frac (h / 6), s, v))"

definition name_light_green :: string where
  \<comment> \<open>'svetlo-zelenyj' (light green)\<close>
  "name_light_green = [CHR 0xD1, CHR 0x81, CHR 0xD0, CHR 0xB2, CHR 0xD0, CHR 0xB5,
     CHR 0xD1, CHR 0x82, CHR 0xD0, CHR 0xBB, CHR 0xD0, CHR 0xBE] @ ''-'' @ [CHR 0xD0,
     CHR 0xB7, CHR 0xD0, CHR 0xB5, CHR 0xD0, CHR 0xBB, CHR 0xD0, CHR 0xB5, CHR 0xD0,
     CHR 0xBD, CHR 0xD1, CHR 0x8B, CHR 0xD0, CHR 0xB9]"

definition name_green :: string where
  \<comment> \<open>'zelenyj' (green)\<close>
  "name_green = [CHR 0xD0, CHR 0xB7, CHR 0xD0, CHR 0xB5, CHR 0xD0, CHR 0xBB, CHR 0xD0,
     CHR 0xB5, CHR 0xD0, CHR 0xBD, CHR 0xD1, CHR 0x8B, CHR 0xD0, CHR 0xB9]"

definition name_light_red :: string where
  \<comment> \<open>'svetlo-krasnyj' (light red)\<close>
  "name_light_red = [CHR 0xD1, CHR 0x81, CHR 0xD0, CHR 0xB2, CHR 0xD0, CHR 0xB5,
     CHR 0xD1, CHR 0x82, CHR 0xD0, CHR 0xBB, CHR 0xD0, CHR 0xBE] @ ''-'' @ [CHR 0xD0,
     CHR 0xBA, CHR 0xD1, CHR 0x80, CHR 0xD0, CHR 0xB0, CHR 0xD1, CHR 0x81, CHR 0xD0,
     CHR 0xBD, CHR 0xD1, CHR 0x8B, CHR 0xD0, CHR 0xB9]"

definition name_red :: string where
  \<comment> \<open>'krasnyj' (red)\<close>
  "name_red = [CHR 0xD0, CHR 0xBA, CHR 0xD1, CHR 0x80, CHR 0xD0, CHR 0xB0, CHR 0xD1,
     CHR 0x81, CHR 0xD0, CHR 0xBD, CHR 0xD1, CHR 0x8B, CHR 0xD0, CHR 0xB9]"

definition name_light_blue :: string where
  \<comment> \<open>'svetlo-sinij' (light blue)\<close>
  "name_light_blue = [CHR 0xD1, CHR 0x81, CHR 0xD0, CHR 0xB2, CHR 0xD0, CHR 0xB5,
     CHR 0xD1, CHR 0x82, CHR 0xD0, CHR 0xBB, CHR 0xD0, CHR 0xBE] @ ''-'' @ [CHR 0xD1,
     CHR 0x81, CHR 0xD0, CHR 0xB8, CHR 0xD0, CHR 0xBD, CHR 0xD0, CHR 0xB8, CHR 0xD0,
     CHR 0xB9]"

definition name_blue :: string where
  \<comment> \<open>'sinij' (blue)\<close>
  "name_blue = [CHR 0xD1, CHR 0x81, CHR 0xD0, CHR 0xB8, CHR 0xD0, CHR 0xBD, CHR 0xD0,
     CHR 0xB8, CHR 0xD0, CHR 0xB9]"

definition name_yellow :: string where
  \<comment> \<open>'zheltyj' (yellow)\<close>
  "name_yellow = [CHR 0xD0, CHR 0xB6, CHR 0xD0, CHR 0xB5, CHR 0xD0, CHR 0xBB, CHR 0xD1,
     CHR 0x82, CHR 0xD1, CHR 0x8B, CHR 0xD0, CHR 0xB9]"

definition name_orange :: string where
  \<comment> \<open>'oranzhevyj' (orange)\<close>
  "name_orange = [CHR 0xD0, CHR 0xBE, CHR 0xD1, CHR 0x80, CHR 0xD0, CHR 0xB0, CHR 0xD0,
     CHR 0xBD, CHR 0xD0, CHR 0xB6, CHR 0xD0, CHR 0xB5, CHR 0xD0, CHR 0xB2, CHR 0xD1,
     CHR 0x8B, CHR 0xD0, CHR 0xB9]"

definition name_gray :: string where
  \<comment> \<open>'seryj' (gray)\<close>
  "name_gray = [CHR 0xD1, CHR 0x81, CHR 0xD0, CHR 0xB5, CHR 0xD1, CHR 0x80, CHR 0xD1,
     CHR 0x8B, CHR 0xD0, CHR 0xB9]"


definition identify_problematic_color :: "rgb \<Rightarrow> string option" where
  "identify_problematic_color color =
     (case rgb_to_hsv color of (h, s, v) \<Rightarrow>
        let hue_name =
          (if 0.2 \<le> h \<and> h \<le> 0.4 then
             (if s > 0.3 \<and> v > 0.4
              then (if v > 0.7 then Some name_light_green else Some name_green)
              else None)
           else if h \<le> 0.05 \<or> h \<ge> 0.95 then
             (if s > 0.3 \<and> v > 0.4
              then (if v > 0.7 then Some name_light_red else Some name_red)
              else None)
           else if 0.55 \<le> h \<and> h \<le> 0.75 then
             (if s > 0.3 \<and> v > 0.4
              then (if v > 0.7 then Some name_light_blue else Some name_blue)
              else None)
           else if 0.05 \<le> h \<and> h \<le> 0.15 then
             (if s > 0.3 \<and> v > 0.6
              then Some (if v > 0.8 then name_yellow else name_orange)
              else None)
           else None)
        in case hue_name of
             Some name \<Rightarrow> Some name
           | None \<Rightarrow> if s < 0.1 \<and> 0.3 \<le> v \<and> v \<le> 0.7 then Some name_gray else None)"

definition extract_background_color :: "real \<Rightarrow> real \<Rightarrow> rgb" where
  \<comment> \<open>the simplified background detection: always white\<close>
  "extract_background_color x y = (1.0, 1.0, 1.0)"

section \<open>Heuristic classifiers\<close>

definition MIN_FONT_SIZE :: nat where "MIN_FONT_SIZE = 12"
definition MIN_HEADING_SIZE :: nat where "MIN_HEADING_SIZE = 14"
definition MIN_CONTRAST_RATIO :: real where "MIN_CONTRAST_RATIO = 4.5"
definition MIN_CONTRAST_LARGE :: real where "MIN_CONTRAST_LARGE = 3.0"

definition ACCESSIBLE_FONTS :: "string list" where
  \<comment> \<open>a Python set; held in the order of the literal\<close>
  "ACCESSIBLE_FONTS =
     [''Arial'', ''Helvetica'', ''Verdana'', ''Tahoma'', ''Calibri'',
      ''Georgia'', ''Times New Roman'', ''Lucida Sans'', ''Trebuchet MS'',
      ''Open Sans'', ''Roboto'', ''Lato'', ''Montserrat'',
      ''LiberationSans'', ''LiberationSerif'', ''DejaVu Sans'', ''DejaVu Serif'']"

definition POOR_READABILITY_FONTS :: "string list" where
  "POOR_READABILITY_FONTS =
     [''Comic Sans'', ''Papyrus'', ''Brush Script'', ''Jokerman'',
      ''Chiller'', ''Curly'', ''Old English'', ''Gothic'',
      ''Courier'', ''Consolas'', ''Monaco'', ''Menlo'', ''Source Code Pro'']"

definition is_large_text_by_wcag :: "real \<Rightarrow> string \<Rightarrow> bool" where
  "is_large_text_by_wcag font_size font_name =
     (let is_bold = list_ex (\<lambda>bold_term. py_in bold_term font_name)
                      [''Bold'', ''BoldItalic'', ''Black'', ''Heavy'', ''-Bold'', ''bold'']
      in if font_size \<ge> 18 then True
         else if font_size \<ge> 14 \<and> is_bold then True
         else False)"

definition normalize_font_name :: "string \<Rightarrow> string" where
  "normalize_font_name font_name =
     (let n0 = (if py_in ''+'' font_name then after_last_plus font_name else font_name);
          n1 = py_replace ''-Italic'' [] (py_replace ''-Bold'' [] n0);
          n2 = py_replace ''Italic'' [] (py_replace ''Bold'' [] n1);
          n3 = py_replace ''PS'' [] (py_replace ''MT'' [] n2)
      in py_strip n3)"

definition lit_readable_font :: string where
  \<comment> \<open>'Horosho chitaemyj shrift: ' (well readable font)\<close>
  "lit_readable_font = [CHR 0xD0, CHR 0xA5, CHR 0xD0, CHR 0xBE, CHR 0xD1, CHR 0x80,
     CHR 0xD0, CHR 0xBE, CHR 0xD1, CHR 0x88, CHR 0xD0, CHR 0xBE] @ '' '' @ [CHR 0xD1,
     CHR 0x87, CHR 0xD0, CHR 0xB8, CHR 0xD1, CHR 0x82, CHR 0xD0, CHR 0xB0, CHR 0xD0,
     CHR 0xB5, CHR 0xD0, CHR 0xBC, CHR 0xD1, CHR 0x8B, CHR 0xD0, CHR 0xB9] @ '' '' @
     [CHR 0xD1, CHR 0x88, CHR 0xD1, CHR 0x80, CHR 0xD0, CHR 0xB8, CHR 0xD1, CHR 0x84,
     CHR 0xD1, CHR 0x82] @ '': ''"

definition lit_poor_font :: string where
  \<comment> \<open>'Ploho chitaemyj shrift: ' (poorly readable font)\<close>
  "lit_poor_font = [CHR 0xD0, CHR 0x9F, CHR 0xD0, CHR 0xBB, CHR 0xD0, CHR 0xBE,
     CHR 0xD1, CHR 0x85, CHR 0xD0, CHR 0xBE] @ '' '' @ [CHR 0xD1, CHR 0x87, CHR 0xD0,
     CHR 0xB8, CHR 0xD1, CHR 0x82, CHR 0xD0, CHR 0xB0, CHR 0xD0, CHR 0xB5, CHR 0xD0,
     CHR 0xBC, CHR 0xD1, CHR 0x8B, CHR 0xD0, CHR 0xB9] @ '' '' @ [CHR 0xD1, CHR 0x88,
     CHR 0xD1, CHR 0x80, CHR 0xD0, CHR 0xB8, CHR 0xD1, CHR 0x84, CHR 0xD1, CHR 0x82] @
     '': ''"

definition lit_unknown_font :: string where
  \<comment> \<open>'Neizvestnyj shrift: ' (unknown font)\<close>
  "lit_unknown_font = [CHR 0xD0, CHR 0x9D, CHR 0xD0, CHR 0xB5, CHR 0xD0, CHR 0xB8,
     CHR 0xD0, CHR 0xB7, CHR 0xD0, CHR 0xB2, CHR 0xD0, CHR 0xB5, CHR 0xD1, CHR 0x81,
     CHR 0xD1, CHR 0x82, CHR 0xD0, CHR 0xBD, CHR 0xD1, CHR 0x8B, CHR 0xD0, CHR 0xB9] @
     '' '' @ [CHR 0xD1, CHR 0x88, CHR 0xD1, CHR 0x80, CHR 0xD0, CHR 0xB8, CHR 0xD1,
     CHR 0x84, CHR 0xD1, CHR 0x82] @ '': ''"


definition check_font_readability :: "string \<Rightarrow> bool \<times> string" where
  \<comment> \<open>The two loops run over Python sets, whose order is not fixed: the model takes the
      first match in the order of the literals. Which set matches, and so the boolean,
      does not depend on the order.\<close>
  "check_font_readability font_name =
     (let normalized_name = normalize_font_name font_name
      in case find (\<lambda>accessible_font. py_in (py_lower accessible_font) (py_lower normalized_name))
                ACCESSIBLE_FONTS of
           Some accessible_font \<Rightarrow> (True, lit_readable_font @ accessible_font)
         | None \<Rightarrow>
            (case find (\<lambda>poor_font. py_in (py_lower poor_font) (py_lower normalized_name))
                    POOR_READABILITY_FONTS of
               Some poor_font \<Rightarrow> (False, lit_poor_font @ poor_font)
             | None \<Rightarrow> (False, lit_unknown_font @ normalized_name)))"

section \<open>Data model\<close>

record glyph =
  \<comment> \<open>one entry of \<^verbatim>\<open>page.chars\<close>; the fields are the dictionary keys the engine reads\<close>
  c_text :: string
  c_x0 :: real
  c_y0 :: real
  c_size :: real
  c_fontname :: string
  c_non_stroking_color :: raw_color

record page =
  pg_id :: nat             \<comment> \<open>\<^verbatim>\<open>id(page)\<close>, the identity of the page object\<close>
  pg_chars :: "glyph list"

datatype severity = High | Medium | Low
  \<comment> \<open>the three values \<^verbatim>\<open>'high'\<close>, \<^verbatim>\<open>'medium'\<close>, \<^verbatim>\<open>'low'\<close> named by the dataclass\<close>

record accessibility_issue =
  i_page :: nat
  i_x :: real
  i_y :: real
  i_text :: string
  i_issue_type :: string
  i_description :: string
  i_severity :: severity
  i_font_name :: string
  i_font_size :: real
  i_color :: rgb
  i_background_color :: rgb

record color_issue =
  ci_page :: nat
  ci_raw_color :: raw_color
  ci_color :: rgb
  ci_color_name :: string
  ci_contrast :: real
  ci_required :: real
  ci_text_sample :: string
  ci_full_text :: string
  ci_position :: "real \<times> real"
  ci_is_large :: bool
  ci_font_size :: real

record color_found =
  cf_page :: nat
  cf_color :: raw_color
  cf_normalized :: rgb
  cf_text :: string

type_synonym text_line = "glyph list \<times> string"

record analyzer =
  \<comment> \<open>the mutable attributes of the analyzer object\<close>
  issues :: "accessibility_issue list"
  color_issues :: "color_issue list"
  line_cache :: "(nat \<times> real) \<rightharpoonup> text_line"
  problematic_colors_found :: "color_found list"
  full_text_cache :: "(nat \<times> real) \<rightharpoonup> string"

definition init_analyzer :: analyzer where
  \<comment> \<open>the attributes as the constructor sets them\<close>
  "init_analyzer =
     \<lparr>issues = [], color_issues = [], line_cache = Map.empty,
      problematic_colors_found = [], full_text_cache = Map.empty\<rparr>"

definition CONTRAST_TYPE :: string where
  \<comment> \<open>issue_type literal: 'Kontrastnost' (contrast)\<close>
  "CONTRAST_TYPE = [CHR 0xD0, CHR 0x9A, CHR 0xD0, CHR 0xBE, CHR 0xD0, CHR 0xBD,
     CHR 0xD1, CHR 0x82, CHR 0xD1, CHR 0x80, CHR 0xD0, CHR 0xB0, CHR 0xD1, CHR 0x81,
     CHR 0xD1, CHR 0x82, CHR 0xD0, CHR 0xBD, CHR 0xD0, CHR 0xBE, CHR 0xD1, CHR 0x81,
     CHR 0xD1, CHR 0x82, CHR 0xD1, CHR 0x8C]"

definition FONT_SIZE_TYPE :: string where
  \<comment> \<open>issue_type literal: 'Razmer shrifta' (font size)\<close>
  "FONT_SIZE_TYPE = [CHR 0xD0, CHR 0xA0, CHR 0xD0, CHR 0xB0, CHR 0xD0, CHR 0xB7,
     CHR 0xD0, CHR 0xBC, CHR 0xD0, CHR 0xB5, CHR 0xD1, CHR 0x80] @ '' '' @ [CHR 0xD1,
     CHR 0x88, CHR 0xD1, CHR 0x80, CHR 0xD0, CHR 0xB8, CHR 0xD1, CHR 0x84, CHR 0xD1,
     CHR 0x82, CHR 0xD0, CHR 0xB0]"

definition FONT_READABILITY_TYPE :: string where
  \<comment> \<open>issue_type literal: 'Chitaemost shrifta' (font readability)\<close>
  "FONT_READABILITY_TYPE = [CHR 0xD0, CHR 0xA7, CHR 0xD0, CHR 0xB8, CHR 0xD1, CHR 0x82,
     CHR 0xD0, CHR 0xB0, CHR 0xD0, CHR 0xB5, CHR 0xD0, CHR 0xBC, CHR 0xD0, CHR 0xBE,
     CHR 0xD1, CHR 0x81, CHR 0xD1, CHR 0x82, CHR 0xD1, CHR 0x8C] @ '' '' @ [CHR 0xD1,
     CHR 0x88, CHR 0xD1, CHR 0x80, CHR 0xD0, CHR 0xB8, CHR 0xD1, CHR 0x84, CHR 0xD1,
     CHR 0x82, CHR 0xD0, CHR 0xB0]"

section \<open>Line reconstructor\<close>

definition get_text_line :: "analyzer \<Rightarrow> page \<Rightarrow> real \<Rightarrow> real \<Rightarrow> text_line \<times> analyzer" where
  \<comment> \<open>\<^verbatim>\<open>list.sort\<close> is stable, as \<^const>\<open>sort_key\<close> is\<close>
  "get_text_line s page y_position tolerance =
     (let cache_key = (pg_id page, py_round2 y_position)
      in case line_cache s cache_key of
           Some line \<Rightarrow> (line, s)
         | None \<Rightarrow>
             let line_chars =
                   sort_key c_x0
                     (filter (\<lambda>char. \<bar>c_y0 char - y_position\<bar> < tolerance) (pg_chars page));
                 line_text = concat (map c_text line_chars)
             in ((line_chars, line_text),
                 s\<lparr>line_cache := (line_cache s)(cache_key \<mapsto> (line_chars, line_text)),
                   full_text_cache := (full_text_cache s)(cache_key \<mapsto> line_text)\<rparr>))"

section \<open>Issue detector\<close>

definition lit_large_text :: string where
  \<comment> \<open>'Krupnyj tekst (' (large text)\<close>
  "lit_large_text = [CHR 0xD0, CHR 0x9A, CHR 0xD1, CHR 0x80, CHR 0xD1, CHR 0x83,
     CHR 0xD0, CHR 0xBF, CHR 0xD0, CHR 0xBD, CHR 0xD1, CHR 0x8B, CHR 0xD0, CHR 0xB9] @
     '' '' @ [CHR 0xD1, CHR 0x82, CHR 0xD0, CHR 0xB5, CHR 0xD0, CHR 0xBA, CHR 0xD1,
     CHR 0x81, CHR 0xD1, CHR 0x82] @ '' (''"

definition lit_bold :: string where
  \<comment> \<open>' zhirnyj' (bold)\<close>
  "lit_bold = '' '' @ [CHR 0xD0, CHR 0xB6, CHR 0xD0, CHR 0xB8, CHR 0xD1, CHR 0x80,
     CHR 0xD0, CHR 0xBD, CHR 0xD1, CHR 0x8B, CHR 0xD0, CHR 0xB9]"

definition lit_normal_text :: string where
  \<comment> \<open>'Obychnyj tekst (' (normal text)\<close>
  "lit_normal_text = [CHR 0xD0, CHR 0x9E, CHR 0xD0, CHR 0xB1, CHR 0xD1, CHR 0x8B,
     CHR 0xD1, CHR 0x87, CHR 0xD0, CHR 0xBD, CHR 0xD1, CHR 0x8B, CHR 0xD0, CHR 0xB9] @
     '' '' @ [CHR 0xD1, CHR 0x82, CHR 0xD0, CHR 0xB5, CHR 0xD0, CHR 0xBA, CHR 0xD1,
     CHR 0x81, CHR 0xD1, CHR 0x82] @ '' (''"

definition lit_required_3 :: string where
  \<comment> \<open>'trebuetsya >=3.0:1' (required), with the sign U+2265\<close>
  "lit_required_3 = [CHR 0xD1, CHR 0x82, CHR 0xD1, CHR 0x80, CHR 0xD0, CHR 0xB5,
     CHR 0xD0, CHR 0xB1, CHR 0xD1, CHR 0x83, CHR 0xD0, CHR 0xB5, CHR 0xD1, CHR 0x82,
     CHR 0xD1, CHR 0x81, CHR 0xD1, CHR 0x8F] @ '' '' @ [CHR 0xE2, CHR 0x89, CHR 0xA5] @
     ''3.0:1''"

definition lit_required_45 :: string where
  \<comment> \<open>'trebuetsya >=4.5:1' (required), with the sign U+2265\<close>
  "lit_required_45 = [CHR 0xD1, CHR 0x82, CHR 0xD1, CHR 0x80, CHR 0xD0, CHR 0xB5,
     CHR 0xD0, CHR 0xB1, CHR 0xD1, CHR 0x83, CHR 0xD0, CHR 0xB5, CHR 0xD1, CHR 0x82,
     CHR 0xD1, CHR 0x81, CHR 0xD1, CHR 0x8F] @ '' '' @ [CHR 0xE2, CHR 0x89, CHR 0xA5] @
     ''4.5:1''"

definition lit_contrast :: string where
  \<comment> \<open>'. Kontrastnost: ' (contrast)\<close>
  "lit_contrast = ''. '' @ [CHR 0xD0, CHR 0x9A, CHR 0xD0, CHR 0xBE, CHR 0xD0, CHR 0xBD,
     CHR 0xD1, CHR 0x82, CHR 0xD1, CHR 0x80, CHR 0xD0, CHR 0xB0, CHR 0xD1, CHR 0x81,
     CHR 0xD1, CHR 0x82, CHR 0xD0, CHR 0xBD, CHR 0xD0, CHR 0xBE, CHR 0xD1, CHR 0x81,
     CHR 0xD1, CHR 0x82, CHR 0xD1, CHR 0x8C] @ '': ''"

definition lit_problem_color :: string where
  \<comment> \<open>'. Problemnyj cvet: ' (problematic colour)\<close>
  "lit_problem_color = ''. '' @ [CHR 0xD0, CHR 0x9F, CHR 0xD1, CHR 0x80, CHR 0xD0,
     CHR 0xBE, CHR 0xD0, CHR 0xB1, CHR 0xD0, CHR 0xBB, CHR 0xD0, CHR 0xB5, CHR 0xD0,
     CHR 0xBC, CHR 0xD0, CHR 0xBD, CHR 0xD1, CHR 0x8B, CHR 0xD0, CHR 0xB9] @ '' '' @
     [CHR 0xD1, CHR 0x86, CHR 0xD0, CHR 0xB2, CHR 0xD0, CHR 0xB5, CHR 0xD1, CHR 0x82] @
     '': ''"

definition lit_heading_size :: string where
  \<comment> \<open>'Razmer zagolovka ' (heading size)\<close>
  "lit_heading_size = [CHR 0xD0, CHR 0xA0, CHR 0xD0, CHR 0xB0, CHR 0xD0, CHR 0xB7,
     CHR 0xD0, CHR 0xBC, CHR 0xD0, CHR 0xB5, CHR 0xD1, CHR 0x80] @ '' '' @ [CHR 0xD0,
     CHR 0xB7, CHR 0xD0, CHR 0xB0, CHR 0xD0, CHR 0xB3, CHR 0xD0, CHR 0xBE, CHR 0xD0,
     CHR 0xBB, CHR 0xD0, CHR 0xBE, CHR 0xD0, CHR 0xB2, CHR 0xD0, CHR 0xBA, CHR 0xD0,
     CHR 0xB0] @ '' ''"

definition lit_text_size :: string where
  \<comment> \<open>'Razmer teksta ' (text size)\<close>
  "lit_text_size = [CHR 0xD0, CHR 0xA0, CHR 0xD0, CHR 0xB0, CHR 0xD0, CHR 0xB7,
     CHR 0xD0, CHR 0xBC, CHR 0xD0, CHR 0xB5, CHR 0xD1, CHR 0x80] @ '' '' @ [CHR 0xD1,
     CHR 0x82, CHR 0xD0, CHR 0xB5, CHR 0xD0, CHR 0xBA, CHR 0xD1, CHR 0x81, CHR 0xD1,
     CHR 0x82, CHR 0xD0, CHR 0xB0] @ '' ''"

definition lit_below_min :: string where
  \<comment> \<open>'pt menshe minimalnogo ' (pt below the minimum)\<close>
  "lit_below_min = ''pt '' @ [CHR 0xD0, CHR 0xBC, CHR 0xD0, CHR 0xB5, CHR 0xD0,
     CHR 0xBD, CHR 0xD1, CHR 0x8C, CHR 0xD1, CHR 0x88, CHR 0xD0, CHR 0xB5] @ '' '' @
     [CHR 0xD0, CHR 0xBC, CHR 0xD0, CHR 0xB8, CHR 0xD0, CHR 0xBD, CHR 0xD0, CHR 0xB8,
     CHR 0xD0, CHR 0xBC, CHR 0xD0, CHR 0xB0, CHR 0xD0, CHR 0xBB, CHR 0xD1, CHR 0x8C,
     CHR 0xD0, CHR 0xBD, CHR 0xD0, CHR 0xBE, CHR 0xD0, CHR 0xB3, CHR 0xD0, CHR 0xBE] @
     '' ''"

definition contrast_description :: "bool \<Rightarrow> bool \<Rightarrow> real \<Rightarrow> real \<Rightarrow> string option \<Rightarrow> string" where
  \<comment> \<open>the f-strings \<open>size_info\<close>, \<open>contrast_req\<close> and \<open>issue_desc\<close>\<close>
  "contrast_description is_large_wcag is_bold avg_size contrast_ratio color_name =
     (let size_info =
            (if is_large_wcag
             then lit_large_text @ format_1f avg_size @ ''pt''
                    @ (if is_bold then lit_bold else []) @ '')''
             else lit_normal_text @ format_1f avg_size @ ''pt)'');
          contrast_req = (if is_large_wcag then lit_required_3 else lit_required_45);
          issue_desc = size_info @ lit_contrast @ format_1f contrast_ratio @ '':1 (''
                         @ contrast_req @ '')''
      in case color_name of
           Some name \<Rightarrow> if name \<noteq> [] then issue_desc @ lit_problem_color @ name else issue_desc
         | None \<Rightarrow> issue_desc)"

definition heading_size_description :: "real \<Rightarrow> string" where
  "heading_size_description font_size =
     lit_heading_size @ format_1f font_size @ lit_below_min @ py_str_nat MIN_HEADING_SIZE @ ''pt''"

definition text_size_description :: "real \<Rightarrow> string" where
  "text_size_description font_size =
     lit_text_size @ format_1f font_size @ lit_below_min @ py_str_nat MIN_FONT_SIZE @ ''pt''"

definition contrast_char_step ::
  "nat \<Rightarrow> string \<Rightarrow> real \<Rightarrow> bool \<Rightarrow> bool \<Rightarrow> real \<Rightarrow> glyph
     \<Rightarrow> accessibility_issue list \<times> analyzer \<Rightarrow> accessibility_issue list \<times> analyzer" where
  \<comment> \<open>the body of the loop over \<open>line_chars\<close> in \<^verbatim>\<open>analyze_text_line_contrast\<close>\<close>
  "contrast_char_step page_num normalized_line_text avg_size is_bold is_large_wcag
       required_contrast char acc =
     (case acc of (issues_acc, s) \<Rightarrow>
      let raw_color = c_non_stroking_color char;
          text_color = normalize_color raw_color;
          s1 = (if raw_color \<notin> {Seq [0, 0, 0], Scalar 0, Absent, Seq [0]}
                then s\<lparr>problematic_colors_found := problematic_colors_found s @
                         [\<lparr>cf_page = page_num, cf_color = raw_color,
                           cf_normalized = text_color, cf_text = c_text char\<rparr>]\<rparr>
                else s);
          bg_color = extract_background_color (c_x0 char) (c_y0 char);
          contrast_ratio = calculate_contrast_ratio text_color bg_color
      in if contrast_ratio < required_contrast then
           let color_name = identify_problematic_color text_color;
               sev = (if contrast_ratio < 2.0 then High
                      else if contrast_ratio < 3.0 then Medium
                      else Low);
               issue_desc = contrast_description is_large_wcag is_bold avg_size
                              contrast_ratio color_name;
               text_preview = (if length normalized_line_text > 150
                               then take 147 normalized_line_text @ ''...''
                               else normalized_line_text);
               new_issue =
                 \<lparr>i_page = page_num, i_x = c_x0 char, i_y = c_y0 char, i_text = text_preview,
                  i_issue_type = CONTRAST_TYPE, i_description = issue_desc, i_severity = sev,
                  i_font_name = c_fontname char, i_font_size = c_size char,
                  i_color = text_color, i_background_color = bg_color\<rparr>;
               s2 = (case color_name of
                       Some name \<Rightarrow>
                         if name \<noteq> [] \<and> contrast_ratio < 4.5
                         then s1\<lparr>color_issues := color_issues s1 @
                                [\<lparr>ci_page = page_num, ci_raw_color = raw_color,
                                  ci_color = text_color, ci_color_name = name,
                                  ci_contrast = contrast_ratio, ci_required = required_contrast,
                                  ci_text_sample = py_strip (take 100 normalized_line_text),
                                  ci_full_text = py_strip normalized_line_text,
                                  ci_position = (c_x0 char, c_y0 char),
                                  ci_is_large = is_large_wcag, ci_font_size = c_size char\<rparr>]\<rparr>
                         else s1
                     | None \<Rightarrow> s1)
           in (issues_acc @ [new_issue], s2)
         else (issues_acc, s1))"

definition analyze_text_line_contrast ::
  "analyzer \<Rightarrow> nat \<Rightarrow> glyph list \<Rightarrow> string \<Rightarrow> accessibility_issue list \<times> analyzer" where
  "analyze_text_line_contrast s page_num line_chars line_text =
     (if line_chars = [] \<or> py_strip line_text = [] then ([], s)
      else
        let normalized_line_text = remove_duplicate_chars (py_strip line_text)
        in if normalized_line_text = [] \<or> length normalized_line_text < 3 then ([], s)
           else
             let avg_size = sum_list (map c_size line_chars) / real (length line_chars);
                 is_bold = list_ex (\<lambda>char. py_in ''Bold'' (c_fontname char)) line_chars;
                 is_large_wcag = is_large_text_by_wcag avg_size (c_fontname (hd line_chars));
                 required_contrast =
                   (if is_large_wcag then MIN_CONTRAST_LARGE else MIN_CONTRAST_RATIO)
             in fold (contrast_char_step page_num normalized_line_text avg_size is_bold
                        is_large_wcag required_contrast)
                  line_chars ([], s))"

definition line_contrast_step ::
  "nat \<Rightarrow> page \<Rightarrow> glyph \<Rightarrow> accessibility_issue list \<times> real set \<times> analyzer
     \<Rightarrow> accessibility_issue list \<times> real set \<times> analyzer" where
  \<comment> \<open>first part of the loop body of \<^verbatim>\<open>analyze_page\<close>: the contrast of the glyph's
      line, unless the rounded \<open>y\<close> is among the processed lines\<close>
  "line_contrast_step page_num page char acc =
     (case acc of (page_issues, processed_lines, s) \<Rightarrow>
      let line_y = py_round2 (c_y0 char)
      in if line_y \<notin> processed_lines then
           (case get_text_line s page (c_y0 char) 2 of
              ((line_chars, line_text), s') \<Rightarrow>
                (case (if py_strip line_text \<noteq> []
                       then analyze_text_line_contrast s' page_num line_chars line_text
                       else ([], s')) of
                   (contrast_issues, s'') \<Rightarrow>
                     (page_issues @ contrast_issues, insert line_y processed_lines, s'')))
         else (page_issues, processed_lines, s))"

definition text_preview_80 :: "string \<Rightarrow> string" where
  \<comment> \<open>\<^verbatim>\<open>normalized_text[:80] + ("..." if len(normalized_text) > 80 else "")\<close>\<close>
  "text_preview_80 normalized_text =
     take 80 normalized_text @ (if length normalized_text > 80 then ''...'' else [])"

definition font_size_issues :: "nat \<Rightarrow> glyph \<Rightarrow> string \<Rightarrow> accessibility_issue list" where
  \<comment> \<open>second part of the loop body: the font size check of the glyph; the colours are
      the defaults of the dataclass\<close>
  "font_size_issues page_num char normalized_text =
     (let font_size = c_size char;
          font_name = c_fontname char;
          is_bold = py_in ''Bold'' font_name;
          is_large_wcag = is_large_text_by_wcag font_size font_name
      in if is_bold \<and> font_size \<ge> 14 then
           (if font_size < real MIN_HEADING_SIZE
            then [\<lparr>i_page = page_num, i_x = c_x0 char, i_y = c_y0 char,
                   i_text = text_preview_80 normalized_text,
                   i_issue_type = FONT_SIZE_TYPE,
                   i_description = heading_size_description font_size,
                   i_severity = High,
                   i_font_name = font_name, i_font_size = font_size,
                   i_color = (0, 0, 0), i_background_color = (1, 1, 1)\<rparr>]
            else [])
         else if \<not> is_large_wcag then
           (if font_size < real MIN_FONT_SIZE
            then [\<lparr>i_page = page_num, i_x = c_x0 char, i_y = c_y0 char,
                   i_text = text_preview_80 normalized_text,
                   i_issue_type = FONT_SIZE_TYPE,
                   i_description = text_size_description font_size,
                   i_severity = (if font_size \<ge> 10 then Medium else High),
                   i_font_name = font_name, i_font_size = font_size,
                   i_color = (0, 0, 0), i_background_color = (1, 1, 1)\<rparr>]
            else [])
         else [])"

definition readability_issues :: "nat \<Rightarrow> glyph \<Rightarrow> string \<Rightarrow> accessibility_issue list" where
  \<comment> \<open>third part of the loop body: the readability check of the glyph's font\<close>
  "readability_issues page_num char normalized_text =
     (case check_font_readability (c_fontname char) of
        (is_readable, readability_info) \<Rightarrow>
          if \<not> is_readable
          then [\<lparr>i_page = page_num, i_x = c_x0 char, i_y = c_y0 char,
                 i_text = text_preview_80 normalized_text,
                 i_issue_type = FONT_READABILITY_TYPE,
                 i_description = readability_info,
                 i_severity = Medium,
                 i_font_name = c_fontname char, i_font_size = c_size char,
                 i_color = (0, 0, 0), i_background_color = (1, 1, 1)\<rparr>]
          else [])"

definition analyze_char ::
  "nat \<Rightarrow> page \<Rightarrow> glyph \<Rightarrow> accessibility_issue list \<times> real set \<times> analyzer
     \<Rightarrow> accessibility_issue list \<times> real set \<times> analyzer" where
  \<comment> \<open>the body of the loop over \<open>page.chars\<close> in \<^verbatim>\<open>analyze_page\<close>; the three
      components are \<open>page_issues\<close>, \<open>processed_lines\<close> and the analyzer. A glyph of
      white space is skipped; a line whose normalized text has fewer than three
      characters gets no size or readability issue.\<close>
  "analyze_char page_num page char acc =
     (if list_all py_isspace (c_text char) then acc
      else
        case line_contrast_step page_num page char acc of
          (page_issues, processed_lines, s1) \<Rightarrow>
            (case get_text_line s1 page (c_y0 char) 2 of
               ((line_chars, line_text), s2) \<Rightarrow>
                 let normalized_text = remove_duplicate_chars (py_strip line_text)
                 in if normalized_text = [] \<or> length normalized_text < 3
                    then (page_issues, processed_lines, s2)
                    else (page_issues @ font_size_issues page_num char normalized_text
                            @ readability_issues page_num char normalized_text,
                          processed_lines, s2)))"

definition analyze_page :: "analyzer \<Rightarrow> nat \<Rightarrow> page \<Rightarrow> accessibility_issue list \<times> analyzer" where
  "analyze_page s page_num page =
     (case fold (analyze_char page_num page) (pg_chars page) ([], {}, s) of
        (page_issues, processed_lines, s') \<Rightarrow> (page_issues, s'))"

fun analyze_pages :: "analyzer \<Rightarrow> nat \<Rightarrow> page list \<Rightarrow> analyzer" where
  \<comment> \<open>the loop of \<^verbatim>\<open>analyze\<close> over \<^verbatim>\<open>enumerate(pdf.pages, 1)\<close>: both caches are
      cleared before each page\<close>
  "analyze_pages s page_num [] = s"
| "analyze_pages s page_num (page # rest) =
     (let s1 = s\<lparr>line_cache := Map.empty, full_text_cache := Map.empty\<rparr>
      in case analyze_page s1 page_num page of
           (page_issues, s2) \<Rightarrow>
             analyze_pages (s2\<lparr>issues := issues s2 @ page_issues\<rparr>) (Suc page_num) rest)"

definition analyze :: "analyzer \<Rightarrow> page list \<Rightarrow> accessibility_issue list \<times> analyzer" where
  \<comment> \<open>the pages are those of the opened document\<close>
  "analyze s pages = (let s' = analyze_pages s 1 pages in (issues s', s'))"

section \<open>Aggregator\<close>

record counts =
  places :: nat
  words :: nat

record type_group =
  tg_total_places :: nat
  tg_total_words :: nat
  tg_pages_affected :: "nat set"

record severity_group =
  sg_places :: nat
  sg_words :: nat
  sg_types :: "string \<rightharpoonup> counts"

record overall_stats =
  ov_total_places :: nat
  ov_total_words :: nat
  ov_pages_with_issues :: "nat set"
  ov_types_distribution :: "string \<rightharpoonup> nat"
  ov_severity_distribution :: "severity \<rightharpoonup> nat"

record summary =
  \<comment> \<open>a \<^verbatim>\<open>defaultdict\<close> is a map whose missing keys read as the default; the inner
      dictionary of \<open>by_type_severity\<close> has exactly the three severities as keys\<close>
  by_type_severity :: "string \<rightharpoonup> (severity \<Rightarrow> counts)"
  by_type :: "string \<rightharpoonup> type_group"
  by_severity :: "severity \<rightharpoonup> severity_group"
  overall :: overall_stats

definition zero_counts :: counts where
  "zero_counts = \<lparr>places = 0, words = 0\<rparr>"

definition empty_summary :: summary where
  "empty_summary =
     \<lparr>by_type_severity = Map.empty, by_type = Map.empty, by_severity = Map.empty,
      overall = \<lparr>ov_total_places = 0, ov_total_words = 0, ov_pages_with_issues = {},
                 ov_types_distribution = Map.empty, ov_severity_distribution = Map.empty\<rparr>\<rparr>"

definition get_default :: "('k \<rightharpoonup> 'v) \<Rightarrow> 'k \<Rightarrow> 'v \<Rightarrow> 'v" where
  \<comment> \<open>reading a \<^verbatim>\<open>defaultdict\<close>\<close>
  "get_default m k d = (case m k of None \<Rightarrow> d | Some v \<Rightarrow> v)"

definition add_counts :: "counts \<Rightarrow> nat \<Rightarrow> counts" where
  \<comment> \<open>\<^verbatim>\<open>['places'] += 1\<close> and \<^verbatim>\<open>['words'] += word_count\<close>\<close>
  "add_counts c word_count = \<lparr>places = places c + 1, words = words c + word_count\<rparr>"

definition summarize_step :: "accessibility_issue \<Rightarrow> summary \<Rightarrow> summary" where
  \<comment> \<open>the body of the loop in \<^verbatim>\<open>group_and_summarize_issues_improved\<close>\<close>
  "summarize_step issue summ =
     (let word_count = count_words (i_text issue);
          ty = i_issue_type issue;
          sev = i_severity issue;
          type_sev_group = get_default (by_type_severity summ) ty (\<lambda>_. zero_counts);
          type_sev_group' = type_sev_group(sev := add_counts (type_sev_group sev) word_count);
          type_group = get_default (by_type summ) ty
                         \<lparr>tg_total_places = 0, tg_total_words = 0, tg_pages_affected = {}\<rparr>;
          type_group' = \<lparr>tg_total_places = tg_total_places type_group + 1,
                         tg_total_words = tg_total_words type_group + word_count,
                         tg_pages_affected = insert (i_page issue) (tg_pages_affected type_group)\<rparr>;
          severity_group = get_default (by_severity summ) sev
                             \<lparr>sg_places = 0, sg_words = 0, sg_types = Map.empty\<rparr>;
          severity_group' =
            \<lparr>sg_places = sg_places severity_group + 1,
             sg_words = sg_words severity_group + word_count,
             sg_types = (sg_types severity_group)
                          (ty \<mapsto> add_counts (get_default (sg_types severity_group) ty zero_counts)
                                  word_count)\<rparr>;
          ov = overall summ;
          ov' = \<lparr>ov_total_places = ov_total_places ov + 1,
                 ov_total_words = ov_total_words ov + word_count,
                 ov_pages_with_issues = insert (i_page issue) (ov_pages_with_issues ov),
                 ov_types_distribution = (ov_types_distribution ov)
                    (ty \<mapsto> get_default (ov_types_distribution ov) ty 0 + 1),
                 ov_severity_distribution = (ov_severity_distribution ov)
                    (sev \<mapsto> get_default (ov_severity_distribution ov) sev 0 + 1)\<rparr>
      in \<lparr>by_type_severity = (by_type_severity summ)(ty \<mapsto> type_sev_group'),
          by_type = (by_type summ)(ty \<mapsto> type_group'),
          by_severity = (by_severity summ)(sev \<mapsto> severity_group'),
          overall = ov'\<rparr>)"

definition group_and_summarize_issues_improved :: "analyzer \<Rightarrow> summary" where
  "group_and_summarize_issues_improved s = fold summarize_step (issues s) empty_summary"










section \<open>Predicates used to state the properties\<close>

definition mirror_doubled :: "'a list \<Rightarrow> bool" where
  \<comment> \<open>a non-empty list of even length whose first half equals its second half\<close>
  "mirror_doubled t =
     (t \<noteq> [] \<and> length t mod 2 = 0 \<and> take (length t div 2) t = drop (length t div 2) t)"

definition valid_rgb :: "rgb \<Rightarrow> bool" where
  \<comment> \<open>an RGB colour: every channel lies in [0, 1]\<close>
  "valid_rgb color =
     (case color of (r, g, b) \<Rightarrow> 0 \<le> r \<and> r \<le> 1 \<and> 0 \<le> g \<and> g \<le> 1 \<and> 0 \<le> b \<and> b \<le> 1)"

definition components_in_unit :: "raw_color \<Rightarrow> bool" where
  \<comment> \<open>every number of the encoded colour lies in [0, 1]\<close>
  "components_in_unit raw =
     (case raw of
        Scalar c \<Rightarrow> 0 \<le> c \<and> c \<le> 1
      | Seq cs \<Rightarrow> list_all (\<lambda>c. 0 \<le> c \<and> c \<le> 1) cs
      | Absent \<Rightarrow> True
      | Unrecognized \<Rightarrow> True)"

definition severity_places_sum :: "summary \<Rightarrow> nat" where
  \<comment> \<open>the sum of \<open>places\<close> over the keys of \<open>by_severity\<close>\<close>
  "severity_places_sum summ =
     (\<Sum>sev \<in> dom (by_severity summ). sg_places (the (by_severity summ sev)))"





definition jitter_glyph :: glyph where
  \<comment> \<open>a glyph half a unit above the baseline 0\<close>
  "jitter_glyph =
     \<lparr>c_text = ''a'', c_x0 = 0, c_y0 = 0.5, c_size = 12, c_fontname = ''Arial'',
      c_non_stroking_color = Seq [0, 0, 0]\<rparr>"

definition jitter_page :: page where
  "jitter_page = \<lparr>pg_id = 0, pg_chars = [jitter_glyph]\<rparr>"

definition line_glyphs :: "analyzer \<Rightarrow> page \<Rightarrow> real \<Rightarrow> real \<Rightarrow> glyph list" where
  \<comment> \<open>the glyphs of the line that \<open>get_text_line\<close> returns\<close>
  "line_glyphs s page y tolerance = fst (fst (get_text_line s page y tolerance))"

definition after_line :: "analyzer \<Rightarrow> page \<Rightarrow> real \<Rightarrow> real \<Rightarrow> analyzer" where
  \<comment> \<open>the analyzer after that call, with the line cached\<close>
  "after_line s page y tolerance = snd (get_text_line s page y tolerance)"

definition from_live_branch :: "accessibility_issue \<Rightarrow> bool" where
  \<comment> \<open>what every issue of the page detector satisfies: a contrast issue, a readability
      issue, or a font size issue of the regular text branch\<close>
  "from_live_branch issue =
     (i_issue_type issue = CONTRAST_TYPE
      \<or> i_issue_type issue = FONT_READABILITY_TYPE
      \<or> i_issue_type issue = FONT_SIZE_TYPE
          \<and> i_description issue = text_size_description (i_font_size issue)
          \<and> i_font_size issue < 12)"

definition hello_glyph :: "string \<Rightarrow> real \<Rightarrow> real \<Rightarrow> glyph" where
  \<comment> \<open>a 10pt, black, non-bold Arial glyph\<close>
  "hello_glyph t x y =
     \<lparr>c_text = t, c_x0 = x, c_y0 = y, c_size = 10, c_fontname = ''Arial'',
      c_non_stroking_color = Seq [0, 0, 0]\<rparr>"

definition hello_chars :: "real \<Rightarrow> real \<Rightarrow> real \<Rightarrow> glyph list" where
  \<comment> \<open>one run spelling \<open>hello\<close>: it starts at \<open>x\<close> on the line \<open>y\<close> and advances by \<open>w\<close>\<close>
  "hello_chars x w y =
     [hello_glyph ''h'' x y, hello_glyph ''e'' (x + w) y, hello_glyph ''l'' (x + 2 * w) y,
      hello_glyph ''l'' (x + 3 * w) y, hello_glyph ''o'' (x + 4 * w) y]"

definition hello_page :: "nat \<Rightarrow> real \<Rightarrow> real \<Rightarrow> real \<Rightarrow> page" where
  "hello_page pid x w y = \<lparr>pg_id = pid, pg_chars = hello_chars x w y\<rparr>"

definition hello_size_issue :: "nat \<Rightarrow> real \<Rightarrow> real \<Rightarrow> accessibility_issue" where
  \<comment> \<open>the font size issue that each glyph of the run gives rise to\<close>
  "hello_size_issue page_num x y =
     \<lparr>i_page = page_num, i_x = x, i_y = y, i_text = ''helo'', i_issue_type = FONT_SIZE_TYPE,
      i_description = text_size_description 10, i_severity = Medium,
      i_font_name = ''Arial'', i_font_size = 10,
      i_color = (0, 0, 0), i_background_color = (1, 1, 1)\<rparr>"

definition hello_cached :: "analyzer \<Rightarrow> nat \<Rightarrow> real \<Rightarrow> real \<Rightarrow> real \<Rightarrow> analyzer" where
  \<comment> \<open>the analyzer once the line of the run is cached\<close>
  "hello_cached s pid x w y =
     s\<lparr>line_cache := (line_cache s)((pid, py_round2 y) \<mapsto> (hello_chars x w y, ''hello'')),
       full_text_cache := (full_text_cache s)((pid, py_round2 y) \<mapsto> ''hello'')\<rparr>"

section \<open>Text normalizer: collapsing runs\<close>

lemma collapse_runs_distinct_adj: "distinct_adj (collapse_runs xs)"
proof (induction xs rule: collapse_runs.induct)
  case 1
  show ?case by simp
next
  case (2 x xs)
  show ?case
  proof (cases "dropWhile (\<lambda>y. y = x) xs")
    case Nil
    show ?thesis unfolding collapse_runs.simps Nil by simp
  next
    case (Cons z zs)
    then have "z \<noteq> x" using hd_dropWhile[of "\<lambda>y. y = x" xs] by auto
    with 2 Cons show ?thesis by simp
  qed
qed

lemma collapse_runs_fixed: "distinct_adj xs \<Longrightarrow> collapse_runs xs = xs"
proof (induction xs rule: collapse_runs.induct)
  case 1
  show ?case by simp
next
  case (2 x xs)
  then show ?case by (cases xs) auto
qed

lemma distinct_adj_take: "distinct_adj xs \<Longrightarrow> distinct_adj (take n xs)"
  using distinct_adj_appendD1 [of "take n xs" "drop n xs"] by simp

lemma remove_duplicate_chars_cases:
  "remove_duplicate_chars s = s \<and> length s < 2
   \<or> remove_duplicate_chars s = collapse_runs s \<and> \<not> mirror_doubled (collapse_runs s)
   \<or> remove_duplicate_chars s = take (length (collapse_runs s) div 2) (collapse_runs s)
       \<and> mirror_doubled (collapse_runs s) \<and> 2 \<le> length s"
proof (cases "length s < 2")
  case True
  then show ?thesis by (simp add: remove_duplicate_chars_def)
next
  case False
  then have "collapse_runs s \<noteq> []" by (cases s) auto
  with False show ?thesis
    unfolding remove_duplicate_chars_def mirror_doubled_def Let_def by auto
qed

lemma short_distinct_adj: "length s < 2 \<Longrightarrow> distinct_adj s"
  by (cases s) (auto simp: length_Suc_conv)

lemma short_not_mirror_doubled: "length s < 2 \<Longrightarrow> \<not> mirror_doubled s"
  by (cases s) (auto simp: mirror_doubled_def)

lemma remove_duplicate_chars_distinct_adj: "distinct_adj (remove_duplicate_chars s)"
  using remove_duplicate_chars_cases [of s] collapse_runs_distinct_adj [of s]
    distinct_adj_take [of "collapse_runs s"] short_distinct_adj [of s]
  by metis

lemma mirror_doubled_take_neq: "mirror_doubled r \<Longrightarrow> take (length r div 2) r \<noteq> r"
proof
  assume md: "mirror_doubled r" and eq: "take (length r div 2) r = r"
  from eq have "length (take (length r div 2) r) = length r" by (rule arg_cong)
  then have "min (length r) (length r div 2) = length r" by (simp only: length_take)
  then have "length r = 0" by arith
  with md show False by (auto simp: mirror_doubled_def)
qed

lemma remove_duplicate_chars_fixed_iff:
  assumes "distinct_adj r"
  shows "(remove_duplicate_chars r = r) = (\<not> mirror_doubled r)"
  using remove_duplicate_chars_cases [of r] collapse_runs_fixed [OF assms]
    short_not_mirror_doubled [of r] mirror_doubled_take_neq [of r]
  by metis

section \<open>Classifiers and colour model: auxiliary facts\<close>

lemma py_in_sublist: "py_in sub s = sublist sub s"
  by (induction s) (auto simp: sublist_Cons_right)

lemma is_large_iff:
  "is_large_text_by_wcag font_size font_name =
     (font_size \<ge> 18 \<or> font_size \<ge> 14 \<and>
        (sublist ''Bold'' font_name \<or> sublist ''BoldItalic'' font_name
         \<or> sublist ''Black'' font_name \<or> sublist ''Heavy'' font_name
         \<or> sublist ''-Bold'' font_name \<or> sublist ''bold'' font_name))"
  by (auto simp: is_large_text_by_wcag_def py_in_sublist)

lemma is_large_ex1: "is_large_text_by_wcag 18 ''Arial''"
  by (simp add: is_large_text_by_wcag_def)

lemma is_large_ex2: "is_large_text_by_wcag 14 ''Arial-Bold''"
  by (simp add: is_large_text_by_wcag_def)

lemma is_large_ex3: "\<not> is_large_text_by_wcag 14 ''Arial''"
  by (simp add: is_large_text_by_wcag_def)

lemma is_large_ex4: "\<not> is_large_text_by_wcag 13.9 ''Arial-Bold''"
  by (simp add: is_large_text_by_wcag_def)

lemma normalize_color_unit:
  assumes "components_in_unit raw"
  shows "valid_rgb (normalize_color raw)"
proof (cases raw rule: normalize_color.cases)
  case (4 c m y k)
  with assms have b: "0 \<le> c" "c \<le> 1" "0 \<le> m" "m \<le> 1" "0 \<le> y" "y \<le> 1" "0 \<le> k" "k \<le> 1"
    by (simp_all add: components_in_unit_def)
  have "\<And>a. 0 \<le> a \<Longrightarrow> a \<le> 1 \<Longrightarrow> 0 \<le> (1 - a) * (1 - k) \<and> (1 - a) * (1 - k) \<le> 1"
    using b(7,8) by (simp add: mult_le_one)
  with 4 b show ?thesis by (simp add: valid_rgb_def)
qed (use assms in \<open>auto simp: valid_rgb_def components_in_unit_def\<close>)

lemma normalize_color_other_length:
  "length cs \<notin> {1, 3, 4} \<Longrightarrow> normalize_color (Seq cs) = (0, 0, 0)"
  by (cases "Seq cs" rule: normalize_color.cases) auto





lemma gray_luminance: "calculate_luminance (v, v, v) = srgb_to_linear v"
  by (simp add: Let_def algebra_simps)

lemma powr_24_pow5:
  fixes x :: real
  assumes "0 < x"
  shows "(x powr 2.4) ^ 5 = x ^ 12"
proof -
  have "(x powr 2.4) ^ 5 = (x powr 2.4) powr 5"
    using assms by (simp add: powr_numeral)
  also have "\<dots> = x powr 12" by (simp add: powr_powr)
  also have "\<dots> = x ^ 12" using assms by (simp add: powr_numeral)
  finally show ?thesis .
qed

lemma powr_24_less:
  fixes x c :: real
  assumes "0 < x" "0 < c" "x ^ 12 < c ^ 5"
  shows "x powr 2.4 < c"
proof (rule ccontr)
  assume "\<not> x powr 2.4 < c"
  then have "c \<le> x powr 2.4" by simp
  then have "c ^ 5 \<le> (x powr 2.4) ^ 5" using assms(2) by (simp add: power_mono)
  with powr_24_pow5 [OF assms(1)] assms(3) show False by linarith
qed

lemma powr_24_ge:
  fixes x c :: real
  assumes "0 < x" "0 < c" "c ^ 5 \<le> x ^ 12"
  shows "c \<le> x powr 2.4"
proof (rule ccontr)
  assume "\<not> c \<le> x powr 2.4"
  then have "x powr 2.4 < c" by simp
  then have "(x powr 2.4) ^ 5 < c ^ 5" by (simp add: power_strict_mono)
  with powr_24_pow5 [OF assms(1)] assms(3) show False by linarith
qed

lemma junction_drop: "srgb_to_linear 0.039285 < srgb_to_linear 0.03928"
proof -
  have "((0.039285 + 0.055) / 1.055 :: real) powr 2.4 < 0.03928 / 12.92"
    by (rule powr_24_less) (simp_all add: divide_simps)
  then show ?thesis by (simp add: srgb_to_linear_def)
qed

lemma junction_recovered: "srgb_to_linear 0.03928 \<le> srgb_to_linear 0.03929"
proof -
  have "(0.03928 / 12.92 :: real) \<le> ((0.03929 + 0.055) / 1.055) powr 2.4"
    by (rule powr_24_ge) (simp_all add: divide_simps)
  then show ?thesis by (simp add: srgb_to_linear_def)
qed

lemma srgb_mono_low: "v1 \<le> v2 \<Longrightarrow> v2 \<le> 0.03928 \<Longrightarrow> srgb_to_linear v1 \<le> srgb_to_linear v2"
  by (simp add: srgb_to_linear_def)

lemma srgb_mono_high: "0.03928 < v1 \<Longrightarrow> v1 \<le> v2 \<Longrightarrow> srgb_to_linear v1 \<le> srgb_to_linear v2"
  by (simp add: srgb_to_linear_def powr_mono2 divide_right_mono)

lemma srgb_mono_amended:
  assumes "0 \<le> v1" "v1 \<le> v2" "v2 \<le> 1"
    and "\<not> (v1 \<le> 0.03928 \<and> 0.03928 < v2 \<and> v2 < 0.03929)"
  shows "srgb_to_linear v1 \<le> srgb_to_linear v2"
proof -
  consider "v2 \<le> 0.03928" | "0.03928 < v1" | "v1 \<le> 0.03928" "0.03929 \<le> v2"
    using assms by fastforce
  then show ?thesis
  proof cases
    case 1 then show ?thesis using assms by (simp add: srgb_mono_low)
  next
    case 2 then show ?thesis using assms by (simp add: srgb_mono_high)
  next
    case 3
    have "srgb_to_linear v1 \<le> srgb_to_linear 0.03928" using 3 by (simp add: srgb_mono_low)
    also have "\<dots> \<le> srgb_to_linear 0.03929" by (rule junction_recovered)
    also have "\<dots> \<le> srgb_to_linear v2" using 3 by (simp add: srgb_mono_high)
    finally show ?thesis .
  qed
qed

section \<open>Aggregator: counting places\<close>

lemma finite_severity_set: "finite (A :: severity set)"
proof -
  have "A \<subseteq> {High, Medium, Low}"
  proof
    fix sev assume "sev \<in> A"
    show "sev \<in> {High, Medium, Low}" by (cases sev) simp_all
  qed
  then show ?thesis by (rule finite_subset) simp
qed

lemma overall_places_step:
  "ov_total_places (overall (summarize_step issue summ)) = ov_total_places (overall summ) + 1"
  by (simp add: summarize_step_def Let_def)

lemma by_severity_step:
  "by_severity (summarize_step issue summ) =
     (by_severity summ)(i_severity issue \<mapsto>
        \<lparr>sg_places = sg_places (get_default (by_severity summ) (i_severity issue)
                        \<lparr>sg_places = 0, sg_words = 0, sg_types = Map.empty\<rparr>) + 1,
         sg_words = sg_words (get_default (by_severity summ) (i_severity issue)
                        \<lparr>sg_places = 0, sg_words = 0, sg_types = Map.empty\<rparr>)
                    + count_words (i_text issue),
         sg_types = (sg_types (get_default (by_severity summ) (i_severity issue)
                        \<lparr>sg_places = 0, sg_words = 0, sg_types = Map.empty\<rparr>))
            (i_issue_type issue \<mapsto>
               add_counts (get_default (sg_types (get_default (by_severity summ) (i_severity issue)
                        \<lparr>sg_places = 0, sg_words = 0, sg_types = Map.empty\<rparr>))
                   (i_issue_type issue) zero_counts) (count_words (i_text issue)))\<rparr>)"
  by (simp add: summarize_step_def Let_def)

lemma sum_map_upd:
  fixes m :: "severity \<rightharpoonup> 'v" and f :: "'v \<Rightarrow> nat"
  shows "(\<Sum>x \<in> dom (m(k \<mapsto> v)). f (the ((m(k \<mapsto> v)) x)))
           + (case m k of None \<Rightarrow> 0 | Some w \<Rightarrow> f w)
         = (\<Sum>x \<in> dom m. f (the (m x))) + f v"
proof -
  have fin: "finite (dom m - {k})" by (rule finite_severity_set)
  have rest: "(\<Sum>x \<in> dom m - {k}. f (the ((m(k \<mapsto> v)) x))) = (\<Sum>x \<in> dom m - {k}. f (the (m x)))"
    by (rule sum.cong) simp_all
  have new: "(\<Sum>x \<in> dom (m(k \<mapsto> v)). f (the ((m(k \<mapsto> v)) x)))
               = f v + (\<Sum>x \<in> dom m - {k}. f (the (m x)))"
  proof -
    have "dom (m(k \<mapsto> v)) = insert k (dom m - {k})" by auto
    then have "(\<Sum>x \<in> dom (m(k \<mapsto> v)). f (the ((m(k \<mapsto> v)) x)))
                 = (\<Sum>x \<in> insert k (dom m - {k}). f (the ((m(k \<mapsto> v)) x)))" by simp
    also have "\<dots> = f (the ((m(k \<mapsto> v)) k)) + (\<Sum>x \<in> dom m - {k}. f (the ((m(k \<mapsto> v)) x)))"
      using fin by (subst sum.insert) simp_all
    finally show ?thesis using rest by simp
  qed
  show ?thesis
  proof (cases "m k")
    case None
    then have "dom m - {k} = dom m" by auto
    with new None show ?thesis by simp
  next
    case (Some w)
    then have "dom m = insert k (dom m - {k})" by auto
    then have "(\<Sum>x \<in> dom m. f (the (m x))) = (\<Sum>x \<in> insert k (dom m - {k}). f (the (m x)))"
      by simp
    also have "\<dots> = f (the (m k)) + (\<Sum>x \<in> dom m - {k}. f (the (m x)))"
      using fin by (subst sum.insert) simp_all
    finally show ?thesis using new Some by simp
  qed
qed

lemma severity_places_step:
  "severity_places_sum (summarize_step issue summ) = severity_places_sum summ + 1"
proof -
  define m where "m = by_severity summ"
  define k where "k = i_severity issue"
  obtain v where upd: "by_severity (summarize_step issue summ) = m(k \<mapsto> v)"
    and pl: "sg_places v = sg_places (get_default m k
               \<lparr>sg_places = 0, sg_words = 0, sg_types = Map.empty\<rparr>) + 1"
    using by_severity_step [of issue summ] by (simp add: m_def k_def)
  have "(case m k of None \<Rightarrow> 0 | Some w \<Rightarrow> sg_places w) + 1 = sg_places v"
    using pl by (simp add: get_default_def split: option.splits)
  with sum_map_upd [where m = m and k = k and v = v and f = sg_places] show ?thesis
    unfolding severity_places_sum_def upd m_def [symmetric] by simp
qed

lemma overall_places_fold:
  "ov_total_places (overall (fold summarize_step xs summ))
     = ov_total_places (overall summ) + length xs"
  by (induction xs arbitrary: summ) (simp_all add: overall_places_step)

lemma severity_places_fold:
  "severity_places_sum (fold summarize_step xs summ) = severity_places_sum summ + length xs"
  by (induction xs arbitrary: summ) (simp_all add: severity_places_step)

lemma empty_summary_places:
  "ov_total_places (overall empty_summary) = 0" "severity_places_sum empty_summary = 0"
  by (simp_all add: empty_summary_def severity_places_sum_def)

section \<open>Aggregator: grouping by canonical key\<close>


















section \<open>Line reconstructor: tolerance bands\<close>

lemma round_half_even_close: "\<bar>of_int (round_half_even v) - v\<bar> \<le> 1 / 2"
proof -
  have "of_int \<lfloor>v\<rfloor> \<le> v" "v < of_int \<lfloor>v\<rfloor> + 1" by linarith+
  then show ?thesis
    unfolding round_half_even_def Let_def by (auto simp: abs_le_iff)
qed

lemma py_round2_close: "\<bar>py_round2 y - y\<bar> \<le> 0.005"
proof -
  have "\<bar>of_int (round_half_even (y * 100)) - y * 100\<bar> \<le> 1 / 2"
    by (rule round_half_even_close)
  then show ?thesis unfolding py_round2_def by (simp add: abs_le_iff field_simps)
qed

lemma py_round2_apart:
  assumes "0.01 < \<bar>y1 - y2\<bar>"
  shows "py_round2 y1 \<noteq> py_round2 y2"
proof
  assume "py_round2 y1 = py_round2 y2"
  moreover have "\<bar>py_round2 y1 - y1\<bar> \<le> 1 / 200" "\<bar>py_round2 y2 - y2\<bar> \<le> 1 / 200"
    using py_round2_close [of y1] py_round2_close [of y2] by simp_all
  moreover have "1 / 100 < \<bar>y1 - y2\<bar>" using assms by simp
  ultimately show False by linarith
qed

lemma line_glyphs_fresh:
  assumes "line_cache s (pg_id page, py_round2 y) = None"
  shows "set (line_glyphs s page y tolerance)
           = {char \<in> set (pg_chars page). \<bar>c_y0 char - y\<bar> < tolerance}"
  using assms by (simp add: line_glyphs_def get_text_line_def Let_def)

lemma after_line_cache:
  assumes "line_cache s key = None" and "key \<noteq> (pg_id page, py_round2 y)"
  shows "line_cache (after_line s page y tolerance) key = None"
  using assms by (simp add: after_line_def get_text_line_def Let_def split: option.splits)

lemma lines_disjoint:
  assumes "line_cache s = Map.empty" and "0.005 < tolerance"
    and "2 * tolerance \<le> \<bar>y1 - y2\<bar>"
  shows "set (line_glyphs s page y1 tolerance)
           \<inter> set (line_glyphs (after_line s page y1 tolerance) page y2 tolerance) = {}"
proof -
  from assms(2,3) have "0.01 < \<bar>y1 - y2\<bar>" by simp
  then have "py_round2 y1 \<noteq> py_round2 y2" by (rule py_round2_apart)
  then have "line_cache (after_line s page y1 tolerance) (pg_id page, py_round2 y2) = None"
    using assms(1) by (intro after_line_cache) simp_all
  then have l2: "set (line_glyphs (after_line s page y1 tolerance) page y2 tolerance)
                   = {char \<in> set (pg_chars page). \<bar>c_y0 char - y2\<bar> < tolerance}"
    by (rule line_glyphs_fresh)
  have l1: "set (line_glyphs s page y1 tolerance)
              = {char \<in> set (pg_chars page). \<bar>c_y0 char - y1\<bar> < tolerance}"
    using assms(1) by (intro line_glyphs_fresh) simp
  show ?thesis unfolding l1 l2 using assms(3) by auto
qed

lemma py_round2_0: "py_round2 0 = 0"
  by (simp add: py_round2_def round_half_even_def)

lemma py_round2_1: "py_round2 1 = 1"
  by (simp add: py_round2_def round_half_even_def)

section \<open>Issue detector: the branches that emit issues\<close>

lemma issue_types_distinct:
  "CONTRAST_TYPE \<noteq> FONT_SIZE_TYPE" "FONT_READABILITY_TYPE \<noteq> FONT_SIZE_TYPE"
  "CONTRAST_TYPE \<noteq> FONT_READABILITY_TYPE"
  by (simp_all add: CONTRAST_TYPE_def FONT_SIZE_TYPE_def FONT_READABILITY_TYPE_def)

lemma text_heading_descriptions_differ:
  "text_size_description a \<noteq> heading_size_description b"
  by (simp add: text_size_description_def heading_size_description_def
      lit_text_size_def lit_heading_size_def)

lemma contrast_step_live:
  assumes "list_all from_live_branch (fst acc)"
  shows "list_all from_live_branch
           (fst (contrast_char_step page_num normalized avg_size is_bold is_large required char acc))"
  using assms
  by (cases acc) (simp add: contrast_char_step_def Let_def from_live_branch_def)

lemma contrast_fold_live:
  "list_all from_live_branch (fst acc) \<Longrightarrow>
   list_all from_live_branch
     (fst (fold (contrast_char_step page_num normalized avg_size is_bold is_large required)
             line_chars acc))"
  by (induction line_chars arbitrary: acc) (simp_all add: contrast_step_live)

lemma analyze_text_line_contrast_live:
  "list_all from_live_branch (fst (analyze_text_line_contrast s page_num line_chars line_text))"
  by (simp add: analyze_text_line_contrast_def Let_def contrast_fold_live)

lemma line_contrast_step_live:
  assumes "list_all from_live_branch (fst acc)"
  shows "list_all from_live_branch (fst (line_contrast_step page_num page char acc))"
proof -
  obtain page_issues processed_lines s where acc: "acc = (page_issues, processed_lines, s)"
    by (cases acc) auto
  have c: "list_all from_live_branch (fst (analyze_text_line_contrast s' page_num lc lt))"
    for s' lc lt by (rule analyze_text_line_contrast_live)
  show ?thesis
    using assms c unfolding acc line_contrast_step_def Let_def
    by (auto split: prod.splits if_splits) (metis fst_conv)+
qed

lemma font_size_issues_live:
  "list_all from_live_branch (font_size_issues page_num char normalized_text)"
  by (simp add: font_size_issues_def Let_def from_live_branch_def
      MIN_FONT_SIZE_def MIN_HEADING_SIZE_def)

lemma readability_issues_live:
  "list_all from_live_branch (readability_issues page_num char normalized_text)"
  by (simp add: readability_issues_def from_live_branch_def split: prod.splits)

lemma analyze_char_live:
  assumes "list_all from_live_branch (fst acc)"
  shows "list_all from_live_branch (fst (analyze_char page_num page char acc))"
proof (cases "list_all py_isspace (c_text char)")
  case True
  with assms show ?thesis by (simp add: analyze_char_def)
next
  case False
  obtain page_issues processed_lines s1
    where step: "line_contrast_step page_num page char acc = (page_issues, processed_lines, s1)"
    by (cases "line_contrast_step page_num page char acc") auto
  from line_contrast_step_live [OF assms, of page_num page char] step
  have live: "list_all from_live_branch page_issues" by simp
  obtain line_chars line_text s2
    where line: "get_text_line s1 page (c_y0 char) 2 = ((line_chars, line_text), s2)"
    by (cases "get_text_line s1 page (c_y0 char) 2") auto
  show ?thesis
    using False live
    by (simp add: analyze_char_def step line Let_def font_size_issues_live
        readability_issues_live)
qed

lemma analyze_chars_live:
  "list_all from_live_branch (fst acc) \<Longrightarrow>
   list_all from_live_branch (fst (fold (analyze_char page_num page) chars acc))"
  by (induction chars arbitrary: acc) (simp_all add: analyze_char_live)

lemma analyze_page_live:
  "list_all from_live_branch (fst (analyze_page s page_num page))"
proof -
  have "list_all from_live_branch
          (fst (fold (analyze_char page_num page) (pg_chars page) ([], {}, s)))"
    by (rule analyze_chars_live) simp
  then show ?thesis by (auto simp: analyze_page_def split: prod.splits)
qed

section \<open>Issue detector: a run spelling hello\<close>

lemma hello_sorted:
  "0 < w \<Longrightarrow> sort_key c_x0 (hello_chars x w y) = hello_chars x w y"
  by (simp add: hello_chars_def hello_glyph_def)

lemma hello_band:
  "filter (\<lambda>char. \<bar>c_y0 char - y\<bar> < 2) (hello_chars x w y) = hello_chars x w y"
  by (simp add: hello_chars_def hello_glyph_def)

lemma hello_text: "concat (map c_text (hello_chars x w y)) = ''hello''"
  by (simp add: hello_chars_def hello_glyph_def)

lemma hello_line_fresh:
  assumes "0 < w" and "line_cache s (pid, py_round2 y) = None"
  shows "get_text_line s (hello_page pid x w y) y 2 =
           ((hello_chars x w y, ''hello''),
            s\<lparr>line_cache := (line_cache s)((pid, py_round2 y) \<mapsto> (hello_chars x w y, ''hello'')),
              full_text_cache := (full_text_cache s)((pid, py_round2 y) \<mapsto> ''hello'')\<rparr>)"
  using assms
  by (simp add: get_text_line_def hello_page_def hello_band hello_sorted hello_text Let_def)

lemma hello_line_cached:
  assumes "line_cache s (pid, py_round2 y) = Some line"
  shows "get_text_line s (hello_page pid x w y) y 2 = (line, s)"
  using assms by (simp add: get_text_line_def hello_page_def)

lemma strip_hello: "py_strip ''hello'' = ''hello''"
  by code_simp

lemma dedup_hello: "remove_duplicate_chars ''hello'' = ''helo''"
  by code_simp

lemma arial_readable: "fst (check_font_readability ''Arial'')"
  by code_simp

lemma arial_not_bold: "\<not> py_in ''Bold'' ''Arial''"
  by code_simp

lemma arial_10_not_large: "\<not> is_large_text_by_wcag 10 ''Arial''"
  by (simp add: is_large_text_by_wcag_def)

lemma luminance_black: "calculate_luminance (0, 0, 0) = 0"
  by (simp add: srgb_to_linear_def)

lemma luminance_white: "calculate_luminance (1, 1, 1) = 1"
  by (simp add: srgb_to_linear_def)

lemma contrast_black_white: "calculate_contrast_ratio (0, 0, 0) (1, 1, 1) = 21"
  by (simp add: calculate_contrast_ratio_def srgb_to_linear_def Let_def)

lemma hello_contrast_step:
  "contrast_char_step page_num normalized avg_size is_bold False MIN_CONTRAST_RATIO
     (hello_glyph t x y) acc = acc"
  by (cases acc)
     (simp add: contrast_char_step_def hello_glyph_def extract_background_color_def
        contrast_black_white MIN_CONTRAST_RATIO_def)

lemma hello_contrast_fold:
  "fold (contrast_char_step page_num normalized avg_size is_bold False MIN_CONTRAST_RATIO)
     (hello_chars x w y) acc = acc"
  by (simp add: hello_chars_def hello_contrast_step)

lemma hello_contrast:
  "analyze_text_line_contrast s page_num (hello_chars x w y) ''hello'' = ([], s)"
proof -
  have avg: "sum_list (map c_size (hello_chars x w y)) / real (length (hello_chars x w y)) = 10"
    by (simp add: hello_chars_def hello_glyph_def)
  have hd: "c_fontname (hd (hello_chars x w y)) = ''Arial''"
    by (simp add: hello_chars_def hello_glyph_def)
  have ne: "hello_chars x w y \<noteq> []" by (simp add: hello_chars_def)
  show ?thesis
    unfolding analyze_text_line_contrast_def Let_def avg hd strip_hello dedup_hello
    using ne by (simp add: arial_10_not_large hello_contrast_fold)
qed

lemma hello_font_size_issues:
  "font_size_issues n (hello_glyph t x y) ''helo'' = [hello_size_issue n x y]"
  by (simp add: font_size_issues_def hello_glyph_def hello_size_issue_def Let_def
      arial_not_bold arial_10_not_large MIN_FONT_SIZE_def text_preview_80_def)

lemma hello_readability_issues:
  "readability_issues n (hello_glyph t x y) ''helo'' = []"
  using arial_readable
  by (cases "check_font_readability ''Arial''") (simp add: readability_issues_def hello_glyph_def)

lemma hello_first_line_step:
  assumes "0 < w" and "line_cache s (pid, py_round2 y) = None"
  shows "line_contrast_step n (hello_page pid x w y) (hello_glyph t x' y) (page_issues, {}, s) =
           (page_issues, {py_round2 y},
            s\<lparr>line_cache := (line_cache s)((pid, py_round2 y) \<mapsto> (hello_chars x w y, ''hello'')),
              full_text_cache := (full_text_cache s)((pid, py_round2 y) \<mapsto> ''hello'')\<rparr>)"
proof -
  have y: "c_y0 (hello_glyph t x' y) = y" by (simp add: hello_glyph_def)
  show ?thesis
    unfolding line_contrast_step_def Let_def y
    by (simp add: hello_line_fresh [OF assms] strip_hello hello_contrast)
qed

lemma hello_later_line_step:
  "line_contrast_step n (hello_page pid x w y) (hello_glyph t x' y)
       (page_issues, {py_round2 y}, s) = (page_issues, {py_round2 y}, s)"
  by (simp add: line_contrast_step_def hello_glyph_def)

lemma hello_char_tail:
  assumes "line_cache s (pid, py_round2 y) = Some (hello_chars x w y, ''hello'')"
    and "line_contrast_step n (hello_page pid x w y) (hello_glyph t x' y) acc
           = (page_issues, processed_lines, s)"
    and "\<not> list_all py_isspace t"
  shows "analyze_char n (hello_page pid x w y) (hello_glyph t x' y) acc
           = (page_issues @ [hello_size_issue n x' y], processed_lines, s)"
proof -
  have y: "c_y0 (hello_glyph t x' y) = y" and t: "c_text (hello_glyph t x' y) = t"
    by (simp_all add: hello_glyph_def)
  show ?thesis
    unfolding analyze_char_def Let_def y t assms(2)
    using assms(3)
    by (simp add: hello_line_cached [OF assms(1)] strip_hello dedup_hello
        hello_font_size_issues hello_readability_issues)
qed

lemma hello_first_char:
  assumes "0 < w" and "line_cache s (pid, py_round2 y) = None" and "\<not> list_all py_isspace t"
  shows "analyze_char n (hello_page pid x w y) (hello_glyph t x' y) (page_issues, {}, s)
           = (page_issues @ [hello_size_issue n x' y], {py_round2 y}, hello_cached s pid x w y)"
  unfolding hello_cached_def
  by (rule hello_char_tail [OF _ hello_first_line_step [OF assms(1,2)] assms(3)]) simp

lemma hello_later_char:
  assumes "line_cache s (pid, py_round2 y) = Some (hello_chars x w y, ''hello'')"
    and "\<not> list_all py_isspace t"
  shows "analyze_char n (hello_page pid x w y) (hello_glyph t x' y) (page_issues, {py_round2 y}, s)
           = (page_issues @ [hello_size_issue n x' y], {py_round2 y}, s)"
  by (rule hello_char_tail [OF assms(1) hello_later_line_step assms(2)])

lemma not_space: "\<not> list_all py_isspace ''h''" "\<not> list_all py_isspace ''e''"
  "\<not> list_all py_isspace ''l''" "\<not> list_all py_isspace ''o''"
  by code_simp+

lemma hello_analyze_page:
  assumes "0 < w" and "line_cache s (pid, py_round2 y) = None"
  shows "analyze_page s n (hello_page pid x w y) =
           ([hello_size_issue n x y, hello_size_issue n (x + w) y, hello_size_issue n (x + 2 * w) y,
             hello_size_issue n (x + 3 * w) y, hello_size_issue n (x + 4 * w) y],
            hello_cached s pid x w y)"
proof -
  have c: "line_cache (hello_cached s pid x w y) (pid, py_round2 y)
             = Some (hello_chars x w y, ''hello'')"
    by (simp add: hello_cached_def)
  have chars: "pg_chars (hello_page pid x w y) = hello_chars x w y"
    by (simp add: hello_page_def)
  show ?thesis
    unfolding analyze_page_def chars
    unfolding hello_chars_def fold_simps
    unfolding hello_chars_def [symmetric]
    by (simp add: hello_first_char [OF assms not_space(1)] hello_later_char [OF c not_space(2)]
        hello_later_char [OF c not_space(3)] hello_later_char [OF c not_space(4)])
qed

lemma hello_analyze:
  assumes "0 < w"
  shows "fst (analyze init_analyzer [hello_page pid x w y]) =
           [hello_size_issue 1 x y, hello_size_issue 1 (x + w) y, hello_size_issue 1 (x + 2 * w) y,
            hello_size_issue 1 (x + 3 * w) y, hello_size_issue 1 (x + 4 * w) y]"
proof -
  have "line_cache (init_analyzer\<lparr>line_cache := Map.empty, full_text_cache := Map.empty\<rparr>)
          (pid, py_round2 y) = None" by simp
  from hello_analyze_page [OF assms this, of "Suc 0"]
  show ?thesis
    by (simp add: analyze_def hello_cached_def init_analyzer_def)
qed

lemma format_1f_10: "format_1f 10 = ''10.0''"
  by (simp add: format_1f_def round_half_even_def digit_char_def)

lemma text_size_description_10:
  "text_size_description 10 = lit_text_size @ ''10.0'' @ lit_below_min @ ''12pt''"
  by (simp add: text_size_description_def format_1f_10 MIN_FONT_SIZE_def digit_char_def)

lemma description_mentions_size: "sublist ''10.0pt'' (text_size_description 10)"
proof -
  have "text_size_description 10 = lit_text_size @ ''10.0pt'' @ (drop 2 lit_below_min @ ''12pt'')"
    by (simp add: text_size_description_10 lit_below_min_def)
  then show ?thesis unfolding sublist_def by blast
qed

lemma description_mentions_minimum: "sublist ''12pt'' (text_size_description 10)"
proof -
  have "text_size_description 10 = (lit_text_size @ ''10.0'' @ lit_below_min) @ ''12pt'' @ []"
    by (simp add: text_size_description_10)
  then show ?thesis unfolding sublist_def by blast
qed

lemma hello_size_issue_fields:
  "i_issue_type (hello_size_issue n x y) = FONT_SIZE_TYPE"
  "i_severity (hello_size_issue n x y) = Medium"
  "i_description (hello_size_issue n x y) = text_size_description 10"
  by (simp_all add: hello_size_issue_def)

section \<open>Text normalizer: deduplication applied twice\<close>

text \<open>
  Claim C1, as stated: for every string \<open>s\<close>, deduplicating twice gives the same result
  as deduplicating once. The statement fails at \<open>s = abababab\<close>: the run collapse leaves
  the text as it is, the mirror check halves it to \<open>abab\<close>, and a second application
  halves that again to \<open>ab\<close>.
\<close>

theorem dedup_not_idempotent:
  "remove_duplicate_chars (remove_duplicate_chars ''abababab'')
     \<noteq> remove_duplicate_chars ''abababab''"
  by (simp add: remove_duplicate_chars_def Let_def)

text \<open>
  Claim C1, amended: for every string \<open>s\<close>, deduplicating twice gives the same result as
  deduplicating once exactly when the deduplicated string is not itself a non-empty string
  of even length whose first half equals its second half. (The run collapse alone is
  idempotent; only the mirror check can fire a second time.)
\<close>

theorem dedup_idempotent_iff:
  "(remove_duplicate_chars (remove_duplicate_chars s) = remove_duplicate_chars s)
     = (\<not> mirror_doubled (remove_duplicate_chars s))"
  by (rule remove_duplicate_chars_fixed_iff) (rule remove_duplicate_chars_distinct_adj)

section \<open>Colour model: contrast ratio\<close>



section \<open>Colour model: luminance of the grays\<close>

text \<open>
  Claim C4, as stated: the relative luminance of the gray \<open>(v, v, v)\<close> is non-decreasing
  in \<open>v\<close> on [0, 1]. The statement fails just above the threshold 0.03928 of the channel
  linearization: the linear piece ends at \<open>0.03928 / 12.92\<close>, the power piece starts
  below that value, and the gray 0.039285 has a smaller luminance than the gray 0.03928.
\<close>

theorem luminance_drops_above_threshold:
  "(0::real) \<le> 0.03928 \<and> (0.03928::real) \<le> 0.039285 \<and> (0.039285::real) \<le> 1
   \<and> calculate_luminance (0.039285, 0.039285, 0.039285)
       < calculate_luminance (0.03928, 0.03928, 0.03928)"
  using junction_drop by (simp only: gray_luminance) simp

text \<open>
  Claim C4, amended: the relative luminance of the gray \<open>(v, v, v)\<close>, with each channel
  linearized as \<open>c / 12.92\<close> if \<open>c \<le> 0.03928\<close> and \<open>((c + 0.055) / 1.055) ^ 2.4\<close>
  otherwise, is non-decreasing in \<open>v\<close> on [0, 0.03928] and on (0.03928, 1], and from any
  \<open>v \<le> 0.03928\<close> to any \<open>v \<ge> 0.03929\<close>: for \<open>0 \<le> v1 \<le> v2 \<le> 1\<close> the luminance
  of \<open>v1\<close> is at most that of \<open>v2\<close> unless \<open>v1 \<le> 0.03928 < v2 < 0.03929\<close>.
\<close>

theorem luminance_gray_monotone_off_threshold:
  assumes "0 \<le> v1" and "v1 \<le> v2" and "v2 \<le> 1"
    and "\<not> (v1 \<le> 0.03928 \<and> 0.03928 < v2 \<and> v2 < 0.03929)"
  shows "calculate_luminance (v1, v1, v1) \<le> calculate_luminance (v2, v2, v2)"
  using srgb_mono_amended [OF assms] by (simp only: gray_luminance)

theorem luminance_gray_monotone_off_threshold_witness:
  "(0::real) \<le> 0.02 \<and> (0.02::real) \<le> 0.5 \<and> (0.5::real) \<le> 1
   \<and> \<not> ((0.02::real) \<le> 0.03928 \<and> (0.03928::real) < 0.5 \<and> (0.5::real) < 0.03929)
   \<and> calculate_luminance (0.02, 0.02, 0.02) \<le> calculate_luminance (0.5, 0.5, 0.5)"
proof -
  have h: "(0::real) \<le> 0.02" "(0.02::real) \<le> 0.5" "(0.5::real) \<le> 1"
    "\<not> ((0.02::real) \<le> 0.03928 \<and> (0.03928::real) < 0.5 \<and> (0.5::real) < 0.03929)"
    by simp_all
  from luminance_gray_monotone_off_threshold [OF h] h show ?thesis by blast
qed

section \<open>Colour model: normalization\<close>

text \<open>
  Claim C5, as stated: for every input, \<open>normalize_color\<close> returns an RGB triple with
  each component in [0, 1]. The statement fails at the scalar 2: the method copies the
  number into the three channels and nothing clamps it.
\<close>

theorem normalize_color_out_of_range:
  "\<not> valid_rgb (normalize_color (Scalar 2))"
  by (simp add: valid_rgb_def)

text \<open>
  Claim C5, amended: for every input (scalar, 1-tuple, 3-tuple, 4-tuple CMYK, absent, or
  any unrecognized shape) whose numbers lie in [0, 1], \<open>normalize_color\<close> returns an RGB
  triple with each component in [0, 1]; a 4-tuple \<open>(c, m, y, k)\<close> is converted via
  \<open>r = (1 - c)(1 - k)\<close>, \<open>g = (1 - m)(1 - k)\<close>, \<open>b = (1 - y)(1 - k)\<close>; absent and
  unrecognized inputs, and sequences of any other length, yield black \<open>(0, 0, 0)\<close>.
\<close>

theorem normalize_color_in_range:
  "(components_in_unit raw \<longrightarrow> valid_rgb (normalize_color raw))
   \<and> normalize_color (Seq [c, m, y, k]) = ((1 - c) * (1 - k), (1 - m) * (1 - k), (1 - y) * (1 - k))
   \<and> normalize_color Absent = (0, 0, 0)
   \<and> normalize_color Unrecognized = (0, 0, 0)
   \<and> (length cs \<notin> {1, 3, 4} \<longrightarrow> normalize_color (Seq cs) = (0, 0, 0))"
  using normalize_color_unit [of raw] normalize_color_other_length [of cs] by simp

theorem normalize_color_in_range_witness:
  "components_in_unit (Seq [0.2, 0.4, 0.6, 0.5])
   \<and> valid_rgb (normalize_color (Seq [0.2, 0.4, 0.6, 0.5]))
   \<and> length [0.5, 0.5 :: real] \<notin> {1, 3, 4}
   \<and> normalize_color (Seq [0.5, 0.5]) = (0, 0, 0)"
proof -
  have h: "components_in_unit (Seq [0.2, 0.4, 0.6, 0.5])" "length [0.5, 0.5 :: real] \<notin> {1, 3, 4}"
    by (simp_all add: components_in_unit_def)
  from normalize_color_in_range [of "Seq [0.2, 0.4, 0.6, 0.5]" 0 0 0 0 "[0.5, 0.5]"] h
  show ?thesis by blast
qed

section \<open>Heuristic classifiers: large text\<close>

text \<open>
  Claim C6: for every font size and font name, \<open>is_large_text_by_wcag\<close> returns true if
  and only if the size is at least 18, or the size is at least 14 and the font name
  contains one of the substrings Bold, BoldItalic, Black, Heavy, -Bold or bold (case
  sensitive); in particular it is true of (18, Arial) and of (14, Arial-Bold), and false
  of (14, Arial) and of (13.9, Arial-Bold).
\<close>

theorem is_large_text_by_wcag_characterised:
  "is_large_text_by_wcag font_size font_name =
     (font_size \<ge> 18 \<or> font_size \<ge> 14 \<and>
        (sublist ''Bold'' font_name \<or> sublist ''BoldItalic'' font_name
         \<or> sublist ''Black'' font_name \<or> sublist ''Heavy'' font_name
         \<or> sublist ''-Bold'' font_name \<or> sublist ''bold'' font_name))
   \<and> is_large_text_by_wcag 18 ''Arial''
   \<and> is_large_text_by_wcag 14 ''Arial-Bold''
   \<and> \<not> is_large_text_by_wcag 14 ''Arial''
   \<and> \<not> is_large_text_by_wcag 13.9 ''Arial-Bold''"
  using is_large_iff [of font_size font_name] is_large_ex1 is_large_ex2 is_large_ex3 is_large_ex4
  by blast

section \<open>Aggregator: conservation of the count\<close>

text \<open>
  Claim C7: for every issue list, the summary built by the aggregator conserves the
  count: \<open>overall.total_places\<close> equals the number of issues, and the sum over all
  severities of \<open>by_severity[severity].places\<close> equals the number of issues.
\<close>

theorem summary_conserves_count:
  "ov_total_places (overall (group_and_summarize_issues_improved s)) = length (issues s)
   \<and> (\<Sum>sev \<in> dom (by_severity (group_and_summarize_issues_improved s)).
         sg_places (the (by_severity (group_and_summarize_issues_improved s) sev)))
       = length (issues s)"
proof -
  have "severity_places_sum (group_and_summarize_issues_improved s) = length (issues s)"
    by (simp add: group_and_summarize_issues_improved_def severity_places_fold
        empty_summary_places)
  moreover have "ov_total_places (overall (group_and_summarize_issues_improved s))
                   = length (issues s)"
    by (simp add: group_and_summarize_issues_improved_def overall_places_fold
        empty_summary_places)
  ultimately show ?thesis by (simp add: severity_places_sum_def)
qed

section \<open>Aggregator: singleton groups\<close>




section \<open>Line reconstructor: glyphs shared between lines\<close>

text \<open>
  Claim C9, as stated: for every page and every fixed tolerance, the lines produced by
  \<open>get_text_line\<close> for different \<open>y\<close> values never both contain the same glyph. The
  statement fails for \<open>y\<close> values closer than twice the tolerance: with the default
  tolerance 2.0 and a cleared cache, a glyph at \<open>y0 = 0.5\<close> is in the line for
  \<open>y = 0\<close> and in the line for \<open>y = 1\<close>.
\<close>

theorem glyph_in_two_lines:
  "jitter_glyph \<in> set (line_glyphs init_analyzer jitter_page 0 2)
   \<and> jitter_glyph \<in> set (line_glyphs (after_line init_analyzer jitter_page 0 2) jitter_page 1 2)"
  by (simp add: line_glyphs_def after_line_def get_text_line_def Let_def init_analyzer_def
      jitter_page_def jitter_glyph_def py_round2_0 py_round2_1)

text \<open>
  Claim C9, amended: for every page and every fixed tolerance above 0.005 (the default is
  2.0), starting from a cleared line cache, the lines produced by \<open>get_text_line\<close> for
  two \<open>y\<close> values that are at least twice the tolerance apart never both contain the
  same glyph. (Each band holds the glyphs whose \<open>y0\<close> is within the tolerance of its
  \<open>y\<close>; bands of closer \<open>y\<close> values overlap.)
\<close>

theorem distant_lines_share_no_glyph:
  assumes "line_cache s = Map.empty" and "0.005 < tolerance"
    and "2 * tolerance \<le> \<bar>y1 - y2\<bar>"
  shows "set (line_glyphs s page y1 tolerance)
           \<inter> set (line_glyphs (after_line s page y1 tolerance) page y2 tolerance) = {}"
  using assms by (rule lines_disjoint)

theorem distant_lines_share_no_glyph_witness:
  "line_cache init_analyzer = Map.empty \<and> (0.005::real) < 2 \<and> 2 * (2::real) \<le> \<bar>0 - 4\<bar>
   \<and> set (line_glyphs init_analyzer jitter_page 0 2)
        \<inter> set (line_glyphs (after_line init_analyzer jitter_page 0 2) jitter_page 4 2) = {}"
proof -
  have h: "line_cache init_analyzer = Map.empty" "(0.005::real) < 2"
    "2 * (2::real) \<le> \<bar>0 - 4\<bar>"
    by (simp_all add: init_analyzer_def)
  from distant_lines_share_no_glyph [OF h, of jitter_page] h show ?thesis by blast
qed

section \<open>Issue detector: the end-to-end scenario\<close>

text \<open>
  Claim C2, as stated: analyzing a single-page document whose glyphs are one run of five
  10pt, black, non-bold Arial characters spelling \<open>hello\<close> on the white background
  produces exactly one FontSize issue. The statement fails: the font size check runs
  for every glyph, not once per line, and the run of five glyphs produces five FontSize
  issues.
\<close>

theorem hello_run_five_font_size_issues:
  "length (filter (\<lambda>issue. i_issue_type issue = FONT_SIZE_TYPE)
             (fst (analyze init_analyzer [hello_page 0 72 6 700]))) = 5"
proof -
  have w: "(0::real) < 6" by simp
  show ?thesis
    unfolding hello_analyze [OF w] by (simp add: hello_size_issue_fields)
qed

text \<open>
  Claim C2, amended: analyzing a single-page document whose glyphs are one run of five
  10pt, black, non-bold Arial characters spelling \<open>hello\<close> (left to right on one line)
  on the default white background produces exactly five FontSize issues, one per glyph,
  each with severity medium and a description that mentions \<open>10.0pt\<close> and \<open>12pt\<close>,
  zero Contrast issues, and zero FontReadability issues.
\<close>

theorem hello_run_scenario:
  assumes "0 < w"
  shows "length (filter (\<lambda>issue. i_issue_type issue = FONT_SIZE_TYPE)
                   (fst (analyze init_analyzer [hello_page pid x w y]))) = 5
         \<and> list_all (\<lambda>issue. i_severity issue = Medium
                        \<and> sublist ''10.0pt'' (i_description issue)
                        \<and> sublist ''12pt'' (i_description issue))
             (filter (\<lambda>issue. i_issue_type issue = FONT_SIZE_TYPE)
                (fst (analyze init_analyzer [hello_page pid x w y])))
         \<and> filter (\<lambda>issue. i_issue_type issue = CONTRAST_TYPE)
             (fst (analyze init_analyzer [hello_page pid x w y])) = []
         \<and> filter (\<lambda>issue. i_issue_type issue = FONT_READABILITY_TYPE)
             (fst (analyze init_analyzer [hello_page pid x w y])) = []"
  unfolding hello_analyze [OF assms]
  using issue_types_distinct
  by (simp add: hello_size_issue_fields description_mentions_size description_mentions_minimum)

theorem hello_run_scenario_witness:
  "(0::real) < 6
   \<and> length (filter (\<lambda>issue. i_issue_type issue = FONT_SIZE_TYPE)
               (fst (analyze init_analyzer [hello_page 0 72 6 700]))) = 5
   \<and> filter (\<lambda>issue. i_issue_type issue = CONTRAST_TYPE)
        (fst (analyze init_analyzer [hello_page 0 72 6 700])) = []
   \<and> filter (\<lambda>issue. i_issue_type issue = FONT_READABILITY_TYPE)
        (fst (analyze init_analyzer [hello_page 0 72 6 700])) = []"
proof -
  have w: "(0::real) < 6" by simp
  from hello_run_scenario [OF w, of 0 72 700] w show ?thesis by blast
qed

section \<open>Issue detector: the heading branch\<close>

text \<open>
  Claim C10: for every glyph processed by the page detector, the high-severity heading
  font size branch is unreachable: its guard requires a font size of at least 14 together
  with a font size below \<open>MIN_HEADING_SIZE = 14\<close>, so no FontSize issue whose
  description reports an undersized heading is ever emitted. Every FontSize issue of a
  page carries the description of the regular text branch.
\<close>

theorem heading_branch_unreachable:
  "\<not> (font_size \<ge> 14 \<and> font_size < real MIN_HEADING_SIZE)
   \<and> (\<forall>issue \<in> set (fst (analyze_page s page_num page)).
         i_issue_type issue = FONT_SIZE_TYPE \<longrightarrow>
           i_description issue = text_size_description (i_font_size issue)
           \<and> i_description issue \<noteq> heading_size_description sz)"
proof -
  have "list_all from_live_branch (fst (analyze_page s page_num page))"
    by (rule analyze_page_live)
  then have "\<forall>issue \<in> set (fst (analyze_page s page_num page)).
               i_issue_type issue = FONT_SIZE_TYPE \<longrightarrow>
                 i_description issue = text_size_description (i_font_size issue)"
    using issue_types_distinct by (auto simp: list_all_iff from_live_branch_def)
  then show ?thesis
    using text_heading_descriptions_differ by (auto simp: MIN_HEADING_SIZE_def)
qed

theorem heading_branch_unreachable_witness:
  "hello_size_issue 1 72 700 \<in> set (fst (analyze_page init_analyzer 1 (hello_page 0 72 6 700)))
   \<and> i_issue_type (hello_size_issue 1 72 700) = FONT_SIZE_TYPE
   \<and> i_description (hello_size_issue 1 72 700)
       = text_size_description (i_font_size (hello_size_issue 1 72 700))
   \<and> i_description (hello_size_issue 1 72 700) \<noteq> heading_size_description 10"
proof -
  have w: "(0::real) < 6" by simp
  have c: "line_cache init_analyzer (0, py_round2 700) = None"
    by (simp add: init_analyzer_def)
  have m: "hello_size_issue 1 72 700
             \<in> set (fst (analyze_page init_analyzer 1 (hello_page 0 72 6 700)))"
    unfolding hello_analyze_page [OF w c] by simp
  have t: "i_issue_type (hello_size_issue 1 72 700) = FONT_SIZE_TYPE"
    by (rule hello_size_issue_fields)
  from heading_branch_unreachable [of 14 init_analyzer 1 "hello_page 0 72 6 700" 10] m t
  show ?thesis by blast
qed


end
